theory Spec2Isabelle
  imports Complex_Main
begin

section \<open>JavaScript values\<close>

text \<open>
  The handlers of \<^verbatim>\<open>index.js\<close> read the fields of a JSON request body and of the
  rate service's answer, test them for truthiness, and hand them to the database
  driver. A JavaScript number is an IEEE double; here a finite
  number is the rational it denotes, so sums, products and decimal literals are
  exact (\<^verbatim>\<open>26.60\<close> is \<open>133 / 5\<close>). Rounding to the nearest double, overflow to
  \<^verbatim>\<open>Infinity\<close> and the negative zero are not represented.
\<close>

datatype num = Fin rat | NaN | Infinity bool

datatype jsval =
    JUndefined
  | JNull
  | JBool bool
  | JNum num
  | JStr string
  | JArr "jsval list"
  | JObj "(string \<times> jsval) list"

datatype exn = TypeError string | StoreError string

fun message :: "exn \<Rightarrow> string" where
  "message (TypeError m) = m"
| "message (StoreError m) = m"

text \<open>ToBoolean: what \<^verbatim>\<open>x ? a : b\<close>, \<^verbatim>\<open>x && y\<close>, \<^verbatim>\<open>x || y\<close> and \<^verbatim>\<open>!x\<close> test.\<close>

fun truthy :: "jsval \<Rightarrow> bool" where
  "truthy JUndefined = False"
| "truthy JNull = False"
| "truthy (JBool b) = b"
| "truthy (JNum (Fin x)) = (x \<noteq> 0)"
| "truthy (JNum NaN) = False"
| "truthy (JNum (Infinity s)) = True"
| "truthy (JStr s) = (s \<noteq> [])"
| "truthy (JArr xs) = True"
| "truthy (JObj kvs) = True"

text \<open>
  Reading a property \<^verbatim>\<open>v.k\<close>. On \<^verbatim>\<open>undefined\<close> and \<^verbatim>\<open>null\<close> it throws a
  TypeError (the message is V8's); an object gives its own property or
  \<^verbatim>\<open>undefined\<close>; strings and arrays have a \<^verbatim>\<open>length\<close>. The handlers read only
  the keys \<^verbatim>\<open>tracking_number\<close>, \<^verbatim>\<open>carrier\<close>, \<^verbatim>\<open>conversion_rate\<close> and
  \<^verbatim>\<open>length\<close>, none of which is inherited from a prototype.
\<close>

text \<open>An object is the list of its properties, each key once; a key that is
  missing reads as \<^verbatim>\<open>undefined\<close>.\<close>

definition field :: "(string \<times> jsval) list \<Rightarrow> string \<Rightarrow> jsval" where
  "field kvs k = (case map_of kvs k of Some v \<Rightarrow> v | None \<Rightarrow> JUndefined)"

fun get_prop :: "jsval \<Rightarrow> string \<Rightarrow> exn + jsval" where
  "get_prop JUndefined k =
     Inl (TypeError (''Cannot read properties of undefined (reading '' @ [CHR 0x27] @ k @ [CHR 0x27] @ '')''))"
| "get_prop JNull k =
     Inl (TypeError (''Cannot read properties of null (reading '' @ [CHR 0x27] @ k @ [CHR 0x27] @ '')''))"
| "get_prop (JObj kvs) k = Inr (field kvs k)"
| "get_prop (JStr s) k = Inr (if k = ''length'' then JNum (Fin (of_nat (length s))) else JUndefined)"
| "get_prop (JArr xs) k = Inr (if k = ''length'' then JNum (Fin (of_nat (length xs))) else JUndefined)"
| "get_prop (JBool b) k = Inr JUndefined"
| "get_prop (JNum n) k = Inr JUndefined"

subsection \<open>Reading numbers from strings\<close>

definition is_ws :: "char \<Rightarrow> bool" where
  "is_ws c = (of_char c \<in> {9, 10, 11, 12, 13, 32 :: nat})"

definition is_digit :: "char \<Rightarrow> bool" where
  "is_digit c = (48 \<le> (of_char c :: nat) \<and> (of_char c :: nat) \<le> 57)"

definition digits_val :: "string \<Rightarrow> nat" where
  "digits_val ds = foldl (\<lambda>n c. 10 * n + (of_char c - 48)) 0 ds"

definition scale10 :: "rat \<Rightarrow> int \<Rightarrow> rat" where
  "scale10 m e = (if 0 \<le> e then m * 10 ^ nat e else m / 10 ^ nat (- e))"

text \<open>
  The exponent part of a decimal literal: \<^verbatim>\<open>e\<close> or \<^verbatim>\<open>E\<close>, an optional sign and
  at least one digit. The result is the exponent and the text after it; a text
  that does not start with a complete exponent part is left as it is.
\<close>

definition exponent_part :: "string \<Rightarrow> int \<times> string" where
  "exponent_part s =
     (case s of
        [] \<Rightarrow> (0, s)
      | c # t \<Rightarrow>
          if c = CHR ''e'' \<or> c = CHR ''E'' then
            (case t of
               [] \<Rightarrow> (0, s)
             | d # u \<Rightarrow>
                 if d = CHR ''-'' \<and> takeWhile is_digit u \<noteq> [] then
                   (- int (digits_val (takeWhile is_digit u)), dropWhile is_digit u)
                 else if d = CHR ''+'' \<and> takeWhile is_digit u \<noteq> [] then
                   (int (digits_val (takeWhile is_digit u)), dropWhile is_digit u)
                 else if is_digit d then
                   (int (digits_val (takeWhile is_digit t)), dropWhile is_digit t)
                 else (0, s))
          else (0, s))"

text \<open>
  The longest prefix that is an unsigned decimal literal (digits, an optional
  point and digits, an optional exponent; at least one digit before the exponent):
  its value and the text after it, or \<open>None\<close> when there is no such prefix.
\<close>

definition decimal_prefix :: "string \<Rightarrow> (rat \<times> string) option" where
  "decimal_prefix s =
     (let ip = takeWhile is_digit s;
          r1 = dropWhile is_digit s;
          fp = (case r1 of [] \<Rightarrow> [] | c # t \<Rightarrow> if c = CHR ''.'' then takeWhile is_digit t else []);
          r2 = (case r1 of [] \<Rightarrow> [] | c # t \<Rightarrow> if c = CHR ''.'' then dropWhile is_digit t else r1)
      in if ip = [] \<and> fp = [] then None
         else
           (let (e, r3) = exponent_part r2
            in Some (scale10 (of_nat (digits_val (ip @ fp)) / 10 ^ length fp) e, r3)))"

definition neg :: "num \<Rightarrow> num" where
  "neg n = (case n of Fin x \<Rightarrow> Fin (- x) | NaN \<Rightarrow> NaN | Infinity s \<Rightarrow> Infinity (\<not> s))"

definition starts_with :: "string \<Rightarrow> string \<Rightarrow> bool" where
  "starts_with p s = (take (length p) s = p)"

text \<open>
  \<^verbatim>\<open>parseFloat\<close> on a string: leading white space is skipped, then a sign, then
  \<^verbatim>\<open>Infinity\<close> or the longest decimal literal; whatever follows is ignored, and a
  text with no such prefix gives \<^verbatim>\<open>NaN\<close>. White space is the ASCII white space.
\<close>

definition unsigned_float :: "string \<Rightarrow> num" where
  "unsigned_float s =
     (if starts_with ''Infinity'' s then Infinity True
      else case decimal_prefix s of None \<Rightarrow> NaN | Some (x, r) \<Rightarrow> Fin x)"

definition parse_float_str :: "string \<Rightarrow> num" where
  "parse_float_str s =
     (case dropWhile is_ws s of
        [] \<Rightarrow> NaN
      | c # t \<Rightarrow>
          if c = CHR ''-'' then neg (unsigned_float t)
          else if c = CHR ''+'' then unsigned_float t
          else unsigned_float (c # t))"

text \<open>
  \<^verbatim>\<open>parseFloat(v)\<close> first converts \<open>v\<close> to a string. For a number the string
  reads back as the number; \<^verbatim>\<open>true\<close>, \<^verbatim>\<open>null\<close>, \<^verbatim>\<open>undefined\<close> and
  \<^verbatim>\<open>[object Object]\<close> are no numbers; an array is the comma-separated list of
  its elements (\<^verbatim>\<open>null\<close> and \<^verbatim>\<open>undefined\<close> as the empty string), of which only
  the first element can be read, since a comma ends every literal.
\<close>

fun parseFloat :: "jsval \<Rightarrow> num" where
  "parseFloat (JStr s) = parse_float_str s"
| "parseFloat (JNum n) = n"
| "parseFloat (JArr (x # xs)) = parseFloat x"
| "parseFloat (JArr []) = NaN"
| "parseFloat JUndefined = NaN"
| "parseFloat JNull = NaN"
| "parseFloat (JBool b) = NaN"
| "parseFloat (JObj kvs) = NaN"

subsection \<open>Arithmetic and conversion to numbers\<close>

definition trim :: "string \<Rightarrow> string" where
  "trim s = rev (dropWhile is_ws (rev (dropWhile is_ws s)))"

definition radix_digit :: "char \<Rightarrow> nat" where
  "radix_digit c =
     (let n = (of_char c :: nat)
      in if 48 \<le> n \<and> n \<le> 57 then n - 48
         else if 97 \<le> n \<and> n \<le> 102 then n - 87
         else if 65 \<le> n \<and> n \<le> 70 then n - 55
         else 16)"

definition radix_literal :: "nat \<Rightarrow> string \<Rightarrow> num" where
  "radix_literal b ds =
     (if ds \<noteq> [] \<and> list_all (\<lambda>c. radix_digit c < b) ds
      then Fin (of_nat (foldl (\<lambda>n c. b * n + radix_digit c) 0 ds))
      else NaN)"

definition unsigned_number :: "string \<Rightarrow> num" where
  "unsigned_number s =
     (if s = ''Infinity'' then Infinity True
      else case decimal_prefix s of
             None \<Rightarrow> NaN
           | Some (x, r) \<Rightarrow> if r = [] then Fin x else NaN)"

text \<open>
  StringToNumber, the conversion behind \<^verbatim>\<open>*\<close> and \<^verbatim>\<open>>\<close>: unlike
  \<^verbatim>\<open>parseFloat\<close> the whole trimmed text must be a literal, the empty text is
  \<open>0\<close>, and the radix prefixes \<^verbatim>\<open>0x\<close>, \<^verbatim>\<open>0o\<close>, \<^verbatim>\<open>0b\<close> are read.
\<close>

definition str_to_number :: "string \<Rightarrow> num" where
  "str_to_number s =
     (let t = trim s
      in if t = [] then Fin 0
         else if starts_with ''0x'' t \<or> starts_with ''0X'' t then radix_literal 16 (drop 2 t)
         else if starts_with ''0o'' t \<or> starts_with ''0O'' t then radix_literal 8 (drop 2 t)
         else if starts_with ''0b'' t \<or> starts_with ''0B'' t then radix_literal 2 (drop 2 t)
         else if hd t = CHR ''-'' then neg (unsigned_number (tl t))
         else if hd t = CHR ''+'' then unsigned_number (tl t)
         else unsigned_number t)"

text \<open>
  ToNumber. An array is first turned into the comma-separated text of its
  elements: the empty array is the empty text, a one-element array is the text
  of its element, and a longer one has a comma in it and is no number.
\<close>

fun to_number :: "jsval \<Rightarrow> num" where
  "to_number JUndefined = NaN"
| "to_number JNull = Fin 0"
| "to_number (JBool b) = Fin (if b then 1 else 0)"
| "to_number (JNum n) = n"
| "to_number (JStr s) = str_to_number s"
| "to_number (JObj kvs) = NaN"
| "to_number (JArr []) = Fin 0"
| "to_number (JArr [JUndefined]) = Fin 0"
| "to_number (JArr [JNull]) = Fin 0"
| "to_number (JArr [JBool b]) = NaN"
| "to_number (JArr [JNum n]) = n"
| "to_number (JArr [JStr s]) = str_to_number s"
| "to_number (JArr [JObj kvs]) = NaN"
| "to_number (JArr [JArr ys]) = to_number (JArr ys)"
| "to_number (JArr (x # y # zs)) = NaN"

fun num_add :: "num \<Rightarrow> num \<Rightarrow> num" where
  "num_add (Fin a) (Fin b) = Fin (a + b)"
| "num_add NaN n = NaN"
| "num_add n NaN = NaN"
| "num_add (Infinity s) (Infinity t) = (if s = t then Infinity s else NaN)"
| "num_add (Infinity s) (Fin b) = Infinity s"
| "num_add (Fin a) (Infinity t) = Infinity t"

fun num_mul :: "num \<Rightarrow> num \<Rightarrow> num" where
  "num_mul (Fin a) (Fin b) = Fin (a * b)"
| "num_mul NaN n = NaN"
| "num_mul n NaN = NaN"
| "num_mul (Infinity s) (Infinity t) = Infinity (s = t)"
| "num_mul (Infinity s) (Fin b) = (if b = 0 then NaN else Infinity (s = (0 < b)))"
| "num_mul (Fin a) (Infinity t) = (if a = 0 then NaN else Infinity (t = (0 < a)))"

fun num_gt :: "num \<Rightarrow> num \<Rightarrow> bool" where
  "num_gt (Fin a) (Fin b) = (b < a)"
| "num_gt NaN n = False"
| "num_gt n NaN = False"
| "num_gt (Infinity s) (Infinity t) = (s \<and> \<not> t)"
| "num_gt (Infinity s) (Fin b) = s"
| "num_gt (Fin a) (Infinity t) = (\<not> t)"

subsection \<open>Conversion to strings\<close>

text \<open>
  The text of a finite number (Number::toString) is the shortest decimal that
  reads back as the same double, which the rational does not determine. It is a
  parameter \<open>nts\<close> of the two functions that need it; nothing proved below
  depends on what it returns.
\<close>

fun join_with :: "string \<Rightarrow> string list \<Rightarrow> string" where
  "join_with sep [] = []"
| "join_with sep [s] = s"
| "join_with sep (s # t # ts) = s @ sep @ join_with sep (t # ts)"

fun to_string :: "(rat \<Rightarrow> string) \<Rightarrow> jsval \<Rightarrow> string" where
  "to_string nts JUndefined = ''undefined''"
| "to_string nts JNull = ''null''"
| "to_string nts (JBool b) = (if b then ''true'' else ''false'')"
| "to_string nts (JNum (Fin x)) = nts x"
| "to_string nts (JNum NaN) = ''NaN''"
| "to_string nts (JNum (Infinity s)) = (if s then ''Infinity'' else ''-Infinity'')"
| "to_string nts (JStr s) = s"
| "to_string nts (JObj kvs) = ''[object Object]''"
| "to_string nts (JArr xs) =
     join_with '','' (map (\<lambda>x. if x = JUndefined \<or> x = JNull then [] else to_string nts x) xs)"

text \<open>
  \<^verbatim>\<open>v + r\<close> for a number \<open>r\<close>: arrays and objects are first turned into their
  text; a text on the left makes \<^verbatim>\<open>+\<close> the concatenation, anything else is added
  as a number.
\<close>

fun js_add :: "(rat \<Rightarrow> string) \<Rightarrow> jsval \<Rightarrow> num \<Rightarrow> jsval" where
  "js_add nts (JStr s) r = JStr (s @ to_string nts (JNum r))"
| "js_add nts (JArr xs) r = JStr (to_string nts (JArr xs) @ to_string nts (JNum r))"
| "js_add nts (JObj kvs) r = JStr (to_string nts (JObj kvs) @ to_string nts (JNum r))"
| "js_add nts v r = JNum (num_add (to_number v) r)"

definition digit_char :: "nat \<Rightarrow> char" where
  "digit_char d = ''0123456789'' ! d"

fun show_nat :: "nat \<Rightarrow> string" where
  "show_nat n = (if n < 10 then [digit_char n] else show_nat (n div 10) @ [digit_char (n mod 10)])"

declare show_nat.simps [simp del]

text \<open>
  \<^verbatim>\<open>x.toFixed(f)\<close>: the sign, then the integer nearest to \<open>\<bar>x\<bar> * 10 ^ f\<close> (the
  larger one of two equally near), written with at least \<open>f + 1\<close> digits and a
  point before the last \<open>f\<close>. From \<open>10 ^ 21\<close> on, the text of the number is used.
\<close>

definition toFixed :: "(rat \<Rightarrow> string) \<Rightarrow> nat \<Rightarrow> num \<Rightarrow> string" where
  "toFixed nts f n =
     (case n of
        NaN \<Rightarrow> ''NaN''
      | Infinity s \<Rightarrow> (if s then ''Infinity'' else ''-Infinity'')
      | Fin x \<Rightarrow>
          (if x < 0 then ''-'' else []) @
          (if 10 ^ 21 \<le> \<bar>x\<bar> then nts \<bar>x\<bar>
           else
             (let ds = show_nat (nat \<lfloor>\<bar>x\<bar> * 10 ^ f + 1 / 2\<rfloor>);
                  m = replicate (f + 1 - length ds) CHR ''0'' @ ds
              in if f = 0 then m
                 else take (length m - f) m @ ''.'' @ drop (length m - f) m)))"

section \<open>The store\<close>

text \<open>
  The tables \<^verbatim>\<open>orders\<close> and \<^verbatim>\<open>trackings\<close> as the SQL of the handlers reads and
  writes them. The \<^verbatim>\<open>CREATE TABLE\<close> statements are not part of the repository,
  so a column holds the value the driver was given (\<^verbatim>\<open>undefined\<close> is sent as
  \<^verbatim>\<open>NULL\<close>), and what the schema refuses is a parameter (\<open>reject\<close> below).
  A connection is always obtained, and \<^verbatim>\<open>ROLLBACK\<close> is always carried out.
  The table \<^verbatim>\<open>trackings\<close> has an id of its own, which no statement reads.
\<close>

record order =
  oid :: nat
  purchase_date :: jsval
  original_amount :: jsval
  currency :: jsval
  exchange_rate :: jsval
  freight_cost_hnl :: jsval
  selling_price_hnl :: jsval

record tracking =
  order_id :: nat
  tracking_number :: jsval
  carrier :: jsval

datatype stmt =
    Begin
  | Commit
  | Rollback
  | InsertOrder jsval jsval jsval jsval
  | InsertTracking nat jsval jsval
  | UpdateFinancials jsval jsval jsval nat
  | DeleteTrackings nat
  | DeleteOrder nat
  | SelectOrders

text \<open>
  The world a handler runs in: the two tables, the sequence the order ids come
  from, the snapshot taken by \<^verbatim>\<open>BEGIN\<close> of the open transaction (if any), the
  number of requests sent to the rate service, and the lines written with
  \<^verbatim>\<open>console.error\<close>.
\<close>

record world =
  orders :: "order list"
  trackings :: "tracking list"
  seq :: nat
  tx :: "(order list \<times> tracking list) option"
  fetches :: nat
  console :: "string list"

text \<open>The promise of \<^verbatim>\<open>axios.get\<close>: rejected, or resolved with \<^verbatim>\<open>response.data\<close>.\<close>

datatype reply = Rejected | Resolved jsval

text \<open>
  What a handler does not decide: the statements the store refuses in a given
  state of the tables (with the error message), the answer of the rate service,
  and the text of a number.
\<close>

record env =
  reject :: "order list \<Rightarrow> tracking list \<Rightarrow> stmt \<Rightarrow> string option"
  rate_api :: reply
  nts :: "rat \<Rightarrow> string"

definition to_param :: "jsval \<Rightarrow> jsval" where
  "to_param v = (if v = JUndefined then JNull else v)"

text \<open>
  Modelled from the spec: the schema of \<^verbatim>\<open>orders\<close> is missing; the spec's data
  model gives \<^verbatim>\<open>freight_cost_hnl\<close> and \<^verbatim>\<open>selling_price_hnl\<close> the default 0 and
  makes the identifier system-generated, unique and increasing with insertion.
\<close>

definition new_order :: "nat \<Rightarrow> jsval \<Rightarrow> jsval \<Rightarrow> jsval \<Rightarrow> jsval \<Rightarrow> order" where
  "new_order i d a c r =
     \<lparr>oid = i, purchase_date = to_param d, original_amount = to_param a,
      currency = to_param c, exchange_rate = to_param r,
      freight_cost_hnl = JNum (Fin 0), selling_price_hnl = JNum (Fin 0)\<rparr>"

definition new_tracking :: "nat \<Rightarrow> jsval \<Rightarrow> jsval \<Rightarrow> tracking" where
  "new_tracking i n c = \<lparr>order_id = i, tracking_number = to_param n, carrier = to_param c\<rparr>"

definition set_financials :: "jsval \<Rightarrow> jsval \<Rightarrow> jsval \<Rightarrow> order \<Rightarrow> order" where
  "set_financials a f s ord =
     ord\<lparr>original_amount := to_param a, freight_cost_hnl := to_param f,
         selling_price_hnl := to_param s\<rparr>"

text \<open>
  The effect of a statement the store carries out. \<^verbatim>\<open>ROLLBACK\<close> puts the tables
  back to the snapshot of \<^verbatim>\<open>BEGIN\<close>; the sequence is not put back.
\<close>

fun exec :: "stmt \<Rightarrow> world \<Rightarrow> world" where
  "exec Begin w = w\<lparr>tx := Some (orders w, trackings w)\<rparr>"
| "exec Commit w = w\<lparr>tx := None\<rparr>"
| "exec Rollback w =
     (case tx w of
        None \<Rightarrow> w
      | Some (os, ts) \<Rightarrow> w\<lparr>orders := os, trackings := ts, tx := None\<rparr>)"
| "exec (InsertOrder d a c r) w =
     w\<lparr>orders := orders w @ [new_order (seq w) d a c r], seq := Suc (seq w)\<rparr>"
| "exec (InsertTracking i n c) w = w\<lparr>trackings := trackings w @ [new_tracking i n c]\<rparr>"
| "exec (UpdateFinancials a f s i) w =
     w\<lparr>orders := map (\<lambda>ord. if oid ord = i then set_financials a f s ord else ord) (orders w)\<rparr>"
| "exec (DeleteTrackings i) w = w\<lparr>trackings := filter (\<lambda>t. order_id t \<noteq> i) (trackings w)\<rparr>"
| "exec (DeleteOrder i) w = w\<lparr>orders := filter (\<lambda>ord. oid ord \<noteq> i) (orders w)\<rparr>"
| "exec SelectOrders w = w"

text \<open>\<^verbatim>\<open>await client.query(...)\<close> and \<^verbatim>\<open>await pool.query(...)\<close>: the statement is
  carried out, or the store's error is thrown and nothing is changed.\<close>

definition query :: "env \<Rightarrow> stmt \<Rightarrow> world \<Rightarrow> (exn + unit) \<times> world" where
  "query e s w =
     (case reject e (orders w) (trackings w) s of
        Some m \<Rightarrow> (Inl (StoreError m), w)
      | None \<Rightarrow> (Inr (), exec s w))"

text \<open>\<^verbatim>\<open>INSERT INTO orders ... RETURNING\<close>: the result is the row inserted.\<close>

definition insert_order ::
  "env \<Rightarrow> jsval \<Rightarrow> jsval \<Rightarrow> jsval \<Rightarrow> jsval \<Rightarrow> world \<Rightarrow> (exn + order) \<times> world" where
  "insert_order e d a c r w =
     (case query e (InsertOrder d a c r) w of
        (Inl x, w') \<Rightarrow> (Inl x, w')
      | (Inr u, w') \<Rightarrow> (Inr (new_order (seq w) d a c r), w'))"

text \<open>
  A store that enforces the foreign key of \<^verbatim>\<open>trackings.order_id\<close> without a
  cascade, and nothing else: a tracking needs its order, and an order that is
  still referenced cannot be deleted.
\<close>

fun fk_reject :: "order list \<Rightarrow> tracking list \<Rightarrow> stmt \<Rightarrow> string option" where
  "fk_reject os ts (InsertTracking i n c) =
     (if i \<in> oid ` set os then None else Some ''violates foreign key constraint'')"
| "fk_reject os ts (DeleteOrder i) =
     (if i \<in> order_id ` set ts then Some ''violates foreign key constraint'' else None)"
| "fk_reject os ts s = None"

section \<open>The rate service\<close>

text \<open>
  \<^verbatim>\<open>getDollarRate\<close> (index.js, lines 24 to 39). Everything thrown inside the
  \<^verbatim>\<open>try\<close> (the rejected promise, a read of a property of \<^verbatim>\<open>undefined\<close>, the
  \<^verbatim>\<open>throw\<close> for a missing rate) ends in the \<^verbatim>\<open>catch\<close>, which logs one line and
  returns 26.60.
\<close>

definition fallback_rate :: "world \<Rightarrow> jsval \<times> world" where
  "fallback_rate w =
     (JNum (Fin (2660 / 100)), w\<lparr>console := console w @ [''Usando tasa respaldo 26.60'']\<rparr>)"

definition getDollarRate :: "env \<Rightarrow> world \<Rightarrow> jsval \<times> world" where
  "getDollarRate e w =
     (let w1 = w\<lparr>fetches := Suc (fetches w)\<rparr>
      in case rate_api e of
           Rejected \<Rightarrow> fallback_rate w1
         | Resolved d \<Rightarrow>
             if truthy d then
               (case get_prop d ''conversion_rate'' of
                  Inl x \<Rightarrow> fallback_rate w1
                | Inr r \<Rightarrow>
                    if truthy r then (js_add (nts e) r (Fin (18 / 100)), w1)
                    else fallback_rate w1)
             else fallback_rate w1)"

section \<open>The handlers\<close>

record response =
  status :: nat
  json :: jsval

text \<open>\<^verbatim>\<open>for (const track of trackings)\<close>: an array gives its elements, a string
  its characters, and anything else is not iterable.\<close>

fun elements :: "jsval \<Rightarrow> exn + jsval list" where
  "elements (JArr xs) = Inr xs"
| "elements (JStr s) = Inr (map (\<lambda>c. JStr [c]) s)"
| "elements v = Inl (TypeError ''trackings is not iterable'')"

text \<open>\<^verbatim>\<open>trackings.length > 0\<close>, evaluated only where \<^verbatim>\<open>trackings\<close> is truthy.\<close>

definition length_positive :: "jsval \<Rightarrow> bool" where
  "length_positive v =
     (case get_prop v ''length'' of
        Inl x \<Rightarrow> False
      | Inr l \<Rightarrow> num_gt (to_number l) (Fin 0))"

subsection \<open>POST /api/orders, first registration (index.js, lines 48 to 87)\<close>

text \<open>The body of the loop of lines 70 to 75, for the elements in their order.\<close>

fun insert_trackings :: "env \<Rightarrow> nat \<Rightarrow> jsval list \<Rightarrow> world \<Rightarrow> (exn + unit) \<times> world" where
  "insert_trackings e orderId [] w = (Inr (), w)"
| "insert_trackings e orderId (track # rest) w =
     (case get_prop track ''tracking_number'' of
        Inl x \<Rightarrow> (Inl x, w)
      | Inr n \<Rightarrow>
          (case get_prop track ''carrier'' of
             Inl x \<Rightarrow> (Inl x, w)
           | Inr c \<Rightarrow>
               (case query e (InsertTracking orderId n c) w of
                  (Inl x, w') \<Rightarrow> (Inl x, w')
                | (Inr u, w') \<Rightarrow> insert_trackings e orderId rest w')))"

text \<open>Lines 69 to 76: the guard and the loop.\<close>

definition save_trackings :: "env \<Rightarrow> nat \<Rightarrow> jsval \<Rightarrow> world \<Rightarrow> (exn + unit) \<times> world" where
  "save_trackings e orderId trs w =
     (if truthy trs \<and> length_positive trs then
        (case elements trs of
           Inl x \<Rightarrow> (Inl x, w)
         | Inr xs \<Rightarrow> insert_trackings e orderId xs w)
      else (Inr (), w))"

text \<open>Lines 56 to 60: the rate of the new order.\<close>

definition post_orders_rate :: "env \<Rightarrow> jsval \<Rightarrow> jsval \<Rightarrow> world \<Rightarrow> jsval \<times> world" where
  "post_orders_rate e cur custom_rate w =
     (if cur = JStr ''USD'' then
        (if truthy custom_rate then (JNum (parseFloat custom_rate), w)
         else getDollarRate e w)
      else (JNum (Fin 1), w))"

text \<open>Lines 54 to 79: the \<^verbatim>\<open>try\<close> block.\<close>

definition post_orders_try ::
  "env \<Rightarrow> (string \<times> jsval) list \<Rightarrow> world \<Rightarrow> (exn + response) \<times> world" where
  "post_orders_try e body w =
     (let purchase_date = field body ''purchase_date'';
          original_amount = field body ''original_amount'';
          currency = field body ''currency'';
          trackings = field body ''trackings'';
          custom_rate = field body ''custom_rate''
      in case query e Begin w of
           (Inl x, w1) \<Rightarrow> (Inl x, w1)
         | (Inr u, w1) \<Rightarrow>
             (case post_orders_rate e currency custom_rate w1 of
                (rate, w2) \<Rightarrow>
                  (case insert_order e purchase_date original_amount currency rate w2 of
                     (Inl x, w3) \<Rightarrow> (Inl x, w3)
                   | (Inr row, w3) \<Rightarrow>
                       (case save_trackings e (oid row) trackings w3 of
                          (Inl x, w4) \<Rightarrow> (Inl x, w4)
                        | (Inr u, w4) \<Rightarrow>
                            (case query e Commit w4 of
                               (Inl x, w5) \<Rightarrow> (Inl x, w5)
                             | (Inr u, w5) \<Rightarrow>
                                 (Inr \<lparr>status = 200,
                                       json = JObj [(''success'', JBool True),
                                                    (''message'', JStr ''Pedido guardado''),
                                                    (''orderId'', JNum (Fin (of_nat (oid row))))]\<rparr>,
                                  w5))))))"

text \<open>The \<^verbatim>\<open>catch\<close>: \<^verbatim>\<open>ROLLBACK\<close>, then status 500 with the message of the error.\<close>

definition post_orders :: "env \<Rightarrow> (string \<times> jsval) list \<Rightarrow> world \<Rightarrow> response \<times> world" where
  "post_orders e body w =
     (case post_orders_try e body w of
        (Inr r, w') \<Rightarrow> (r, w')
      | (Inl x, w') \<Rightarrow>
          (\<lparr>status = 500, json = JObj [(''error'', JStr (message x))]\<rparr>, exec Rollback w'))"

subsection \<open>POST /api/orders, second registration (index.js, lines 97 to 153)\<close>

text \<open>Lines 129 to 132: this loop stores \<^verbatim>\<open>track.carrier || 'Desconocido'\<close>.\<close>

fun insert_trackings_second ::
  "env \<Rightarrow> nat \<Rightarrow> jsval list \<Rightarrow> world \<Rightarrow> (exn + unit) \<times> world" where
  "insert_trackings_second e orderId [] w = (Inr (), w)"
| "insert_trackings_second e orderId (track # rest) w =
     (case get_prop track ''tracking_number'' of
        Inl x \<Rightarrow> (Inl x, w)
      | Inr n \<Rightarrow>
          (case get_prop track ''carrier'' of
             Inl x \<Rightarrow> (Inl x, w)
           | Inr c \<Rightarrow>
               (case query e (InsertTracking orderId n (if truthy c then c else JStr ''Desconocido'')) w of
                  (Inl x, w') \<Rightarrow> (Inl x, w')
                | (Inr u, w') \<Rightarrow> insert_trackings_second e orderId rest w')))"

definition post_orders_second_try ::
  "env \<Rightarrow> (string \<times> jsval) list \<Rightarrow> world \<Rightarrow> (exn + response) \<times> world" where
  "post_orders_second_try e body w =
     (let purchase_date = field body ''purchase_date'';
          original_amount = field body ''original_amount'';
          currency = field body ''currency'';
          trackings = field body ''trackings''
      in case query e Begin w of
           (Inl x, w1) \<Rightarrow> (Inl x, w1)
         | (Inr u, w1) \<Rightarrow>
             (case (if currency = JStr ''USD'' then getDollarRate e w1 else (JNum (Fin 1), w1)) of
                (rate, w2) \<Rightarrow>
                  (case insert_order e purchase_date original_amount currency rate w2 of
                     (Inl x, w3) \<Rightarrow> (Inl x, w3)
                   | (Inr newOrder, w3) \<Rightarrow>
                       (case (case trackings of
                                JArr xs \<Rightarrow>
                                  if length_positive trackings
                                  then insert_trackings_second e (oid newOrder) xs w3
                                  else (Inr (), w3)
                              | _ \<Rightarrow> (Inr (), w3)) of
                          (Inl x, w4) \<Rightarrow> (Inl x, w4)
                        | (Inr u, w4) \<Rightarrow>
                            (case query e Commit w4 of
                               (Inl x, w5) \<Rightarrow> (Inl x, w5)
                             | (Inr u, w5) \<Rightarrow>
                                 (Inr \<lparr>status = 201,
                                       json = JObj
                                         [(''success'', JBool True),
                                          (''message'', JStr ''Pedido guardado exitosamente''),
                                          (''order_id'', JNum (Fin (of_nat (oid newOrder)))),
                                          (''tasa_usada'', order.exchange_rate newOrder),
                                          (''total_en_lempiras'',
                                           JStr (toFixed (nts e) 2
                                             (num_mul (to_number (order.original_amount newOrder))
                                                      (to_number (order.exchange_rate newOrder)))))]\<rparr>,
                                  w5))))))"

definition post_orders_second ::
  "env \<Rightarrow> (string \<times> jsval) list \<Rightarrow> world \<Rightarrow> response \<times> world" where
  "post_orders_second e body w =
     (if \<not> truthy (field body ''purchase_date'') \<or> \<not> truthy (field body ''original_amount'') then
        (\<lparr>status = 400,
          json = JObj [(''error'', JStr ''Faltan datos obligatorios (fecha o monto)'')]\<rparr>, w)
      else
        (case post_orders_second_try e body w of
           (Inr r, w') \<Rightarrow> (r, w')
         | (Inl x, w') \<Rightarrow>
             (\<lparr>status = 500,
               json = JObj [(''error'', JStr ''Error interno del servidor''),
                            (''details'', JStr (message x))]\<rparr>,
              (exec Rollback w')\<lparr>console := console w' @ [''Error guardando pedido: '' @ message x]\<rparr>)))"

subsection \<open>POST /api/orders of the second source file (lines 39 to 74)\<close>

definition post_orders_hnl_try ::
  "env \<Rightarrow> (string \<times> jsval) list \<Rightarrow> world \<Rightarrow> (exn + response) \<times> world" where
  "post_orders_hnl_try e body w =
     (let purchase_date = field body ''purchase_date'';
          original_amount = field body ''original_amount'';
          trackings = field body ''trackings''
      in case query e Begin w of
           (Inl x, w1) \<Rightarrow> (Inl x, w1)
         | (Inr u, w1) \<Rightarrow>
             (case insert_order e purchase_date original_amount (JStr ''HNL'') (JNum (Fin 1)) w1 of
                (Inl x, w3) \<Rightarrow> (Inl x, w3)
              | (Inr row, w3) \<Rightarrow>
                  (case save_trackings e (oid row) trackings w3 of
                     (Inl x, w4) \<Rightarrow> (Inl x, w4)
                   | (Inr u, w4) \<Rightarrow>
                       (case query e Commit w4 of
                          (Inl x, w5) \<Rightarrow> (Inl x, w5)
                        | (Inr u, w5) \<Rightarrow>
                            (Inr \<lparr>status = 200,
                                  json = JObj [(''success'', JBool True),
                                               (''message'', JStr ''Pedido guardado'')]\<rparr>,
                             w5)))))"

definition post_orders_hnl ::
  "env \<Rightarrow> (string \<times> jsval) list \<Rightarrow> world \<Rightarrow> response \<times> world" where
  "post_orders_hnl e body w =
     (case post_orders_hnl_try e body w of
        (Inr r, w') \<Rightarrow> (r, w')
      | (Inl x, w') \<Rightarrow>
          (\<lparr>status = 500, json = JObj [(''error'', JStr (message x))]\<rparr>, exec Rollback w'))"

subsection \<open>Routing\<close>

text \<open>
  Express tries the routes of a method and path in the order of their
  registration, and goes on to the next one only when a handler calls
  \<^verbatim>\<open>next\<close>. No handler of these files takes or calls \<^verbatim>\<open>next\<close>: each ends the
  response itself. So a request is answered by the route registered first, and
  index.js registers \<^verbatim>\<open>POST /api/orders\<close> twice.
\<close>

type_synonym handler = "env \<Rightarrow> (string \<times> jsval) list \<Rightarrow> world \<Rightarrow> response \<times> world"

fun dispatch :: "handler list \<Rightarrow> handler" where
  "dispatch [] = (\<lambda>e body w. (\<lparr>status = 404, json = JUndefined\<rparr>, w))"
| "dispatch (h # hs) = h"

definition app_post_orders :: handler where
  "app_post_orders = dispatch [post_orders, post_orders_second]"

subsection \<open>GET /api/rate (index.js, lines 42 to 45)\<close>


subsection \<open>GET /api/orders (the same text in both files)\<close>

text \<open>
  The rows of \<^verbatim>\<open>orders o LEFT JOIN trackings t ON o.id = t.order_id\<close> for one
  order: one row for each tracking that references it, and a single row with
  every column of \<open>t\<close> \<^verbatim>\<open>NULL\<close> when none does.
\<close>

definition left_join :: "order \<Rightarrow> tracking list \<Rightarrow> tracking option list" where
  "left_join ord ts =
     (case filter (\<lambda>t. order_id t = oid ord) ts of
        [] \<Rightarrow> [None]
      | m # ms \<Rightarrow> map Some (m # ms))"

fun json_build_object :: "tracking option \<Rightarrow> jsval" where
  "json_build_object None = JObj [(''n_guia'', JNull), (''carrier'', JNull)]"
| "json_build_object (Some t) = JObj [(''n_guia'', tracking_number t), (''carrier'', carrier t)]"

definition json_agg :: "tracking option list \<Rightarrow> jsval" where
  "json_agg rows = JArr (map json_build_object rows)"

text \<open>
  \<^verbatim>\<open>GROUP BY o.id\<close> with \<^verbatim>\<open>SELECT o.*\<close> is accepted only for a primary key, so a
  group is the joined rows of one order. \<^verbatim>\<open>ORDER BY o.id DESC\<close> sorts the groups.
\<close>

definition select_orders :: "order list \<Rightarrow> tracking list \<Rightarrow> (order \<times> jsval) list" where
  "select_orders os ts =
     map (\<lambda>ord. (ord, json_agg (left_join ord ts))) (rev (sort_key oid os))"

definition row_json :: "order \<times> jsval \<Rightarrow> jsval" where
  "row_json r =
     (case r of
        (ord, agg) \<Rightarrow>
          JObj [(''id'', JNum (Fin (of_nat (oid ord)))),
                (''purchase_date'', purchase_date ord),
                (''original_amount'', original_amount ord),
                (''currency'', currency ord),
                (''exchange_rate'', exchange_rate ord),
                (''freight_cost_hnl'', freight_cost_hnl ord),
                (''selling_price_hnl'', selling_price_hnl ord),
                (''trackings'', agg)])"

definition get_orders :: "env \<Rightarrow> world \<Rightarrow> response \<times> world" where
  "get_orders e w =
     (case query e SelectOrders w of
        (Inl x, w') \<Rightarrow> (\<lparr>status = 500, json = JObj [(''error'', JStr (message x))]\<rparr>, w')
      | (Inr u, w') \<Rightarrow>
          (\<lparr>status = 200, json = JArr (map row_json (select_orders (orders w') (trackings w')))\<rparr>, w'))"

subsection \<open>PUT /api/orders/:id/financials (the same statements in both files)\<close>

text \<open>The path parameter \<^verbatim>\<open>:id\<close> is the number the store reads it as.\<close>

definition put_financials ::
  "env \<Rightarrow> nat \<Rightarrow> (string \<times> jsval) list \<Rightarrow> world \<Rightarrow> response \<times> world" where
  "put_financials e i body w =
     (let original_amount = field body ''original_amount'';
          freight_cost_hnl = field body ''freight_cost_hnl'';
          selling_price_hnl = field body ''selling_price_hnl''
      in case query e (UpdateFinancials original_amount
                         (if truthy freight_cost_hnl then freight_cost_hnl else JNum (Fin 0))
                         (if truthy selling_price_hnl then selling_price_hnl else JNum (Fin 0)) i) w of
           (Inl x, w') \<Rightarrow> (\<lparr>status = 500, json = JObj [(''error'', JStr (message x))]\<rparr>, w')
         | (Inr u, w') \<Rightarrow>
             (\<lparr>status = 200,
               json = JObj [(''success'', JBool True), (''message'', JStr ''Pedido actualizado'')]\<rparr>, w'))"

subsection \<open>DELETE /api/orders/:id (index.js, lines 209 to 221)\<close>

definition delete_order :: "env \<Rightarrow> nat \<Rightarrow> world \<Rightarrow> response \<times> world" where
  "delete_order e i w =
     (case query e (DeleteTrackings i) w of
        (Inl x, w1) \<Rightarrow> (\<lparr>status = 500, json = JObj [(''error'', JStr (message x))]\<rparr>, w1)
      | (Inr u, w1) \<Rightarrow>
          (case query e (DeleteOrder i) w1 of
             (Inl x, w2) \<Rightarrow> (\<lparr>status = 500, json = JObj [(''error'', JStr (message x))]\<rparr>, w2)
           | (Inr u, w2) \<Rightarrow>
               (\<lparr>status = 200,
                 json = JObj [(''success'', JBool True), (''message'', JStr ''Pedido eliminado'')]\<rparr>, w2)))"

section \<open>Notions used to state the properties\<close>

text \<open>The value of \<^verbatim>\<open>v.k\<close> where the read does not throw.\<close>

definition prop_or_undefined :: "jsval \<Rightarrow> string \<Rightarrow> jsval" where
  "prop_or_undefined v k = (case get_prop v k of Inl x \<Rightarrow> JUndefined | Inr y \<Rightarrow> y)"

text \<open>The row of \<^verbatim>\<open>trackings\<close> that the first handler writes for an element of
  the request's \<^verbatim>\<open>trackings\<close>.\<close>

definition tracking_row :: "nat \<Rightarrow> jsval \<Rightarrow> tracking" where
  "tracking_row i x =
     new_tracking i (prop_or_undefined x ''tracking_number'') (prop_or_undefined x ''carrier'')"

text \<open>The trackings a request carries: the elements the loop runs over.\<close>

definition track_items :: "jsval \<Rightarrow> jsval list" where
  "track_items trs =
     (if truthy trs \<and> length_positive trs
      then (case elements trs of Inl x \<Rightarrow> [] | Inr xs \<Rightarrow> xs)
      else [])"

text \<open>
  The rows a request asks for, written out from the request alone. A column takes
  the value of the property, and \<^verbatim>\<open>NULL\<close> where the property is missing; an
  element that is no object has no properties.
\<close>

definition column :: "jsval option \<Rightarrow> jsval" where
  "column v = (case v of None \<Rightarrow> JNull | Some x \<Rightarrow> if x = JUndefined then JNull else x)"

fun tracking_of :: "nat \<Rightarrow> jsval \<Rightarrow> tracking" where
  "tracking_of i (JObj kvs) =
     \<lparr>order_id = i, tracking_number = column (map_of kvs ''tracking_number''),
      carrier = column (map_of kvs ''carrier'')\<rparr>"
| "tracking_of i v = \<lparr>order_id = i, tracking_number = JNull, carrier = JNull\<rparr>"

text \<open>
  The documented shape of \<^verbatim>\<open>trackings\<close>: absent, or an array of objects.
\<close>

fun is_object :: "jsval \<Rightarrow> bool" where
  "is_object (JObj kvs) = True"
| "is_object v = False"

fun well_formed_trackings :: "jsval \<Rightarrow> bool" where
  "well_formed_trackings JUndefined = True"
| "well_formed_trackings (JArr xs) = list_all is_object xs"
| "well_formed_trackings v = False"



text \<open>A store that refuses nothing, a rate service that is down, and an empty
  database: the surroundings of the examples.\<close>

definition lenient :: env where
  "lenient = \<lparr>reject = (\<lambda>os ts s. None), rate_api = Rejected, nts = (\<lambda>x. [])\<rparr>"

definition empty_world :: world where
  "empty_world = \<lparr>orders = [], trackings = [], seq = 1, tx = None, fetches = 0, console = []\<rparr>"

text \<open>A store that refuses every tracking whose number is \<^verbatim>\<open>BAD\<close>, and two
  requests with two trackings each.\<close>

definition picky :: env where
  "picky = lenient\<lparr>reject := (\<lambda>os ts s. case s of
       InsertTracking i n c \<Rightarrow> if n = JStr ''BAD'' then Some ''refused'' else None
     | _ \<Rightarrow> None)\<rparr>"

definition two_trackings :: "(string \<times> jsval) list" where
  "two_trackings =
     [(''purchase_date'', JStr ''2024-01-01''), (''original_amount'', JNum (Fin 100)),
      (''currency'', JStr ''HNL''),
      (''trackings'', JArr [JObj [(''tracking_number'', JStr ''A1''), (''carrier'', JStr ''UPS'')],
                            JObj [(''tracking_number'', JStr ''B2'')]])]"

definition bad_tracking :: "(string \<times> jsval) list" where
  "bad_tracking =
     [(''purchase_date'', JStr ''2024-01-01''), (''original_amount'', JNum (Fin 100)),
      (''trackings'', JArr [JObj [(''tracking_number'', JStr ''A1''), (''carrier'', JStr ''UPS'')],
                            JObj [(''tracking_number'', JStr ''BAD'')]])]"

text \<open>Three requests in US dollars with a rate supplied by the caller: a
  negative one, one that is no number, and the example of the specification.\<close>

definition negative_rate :: "(string \<times> jsval) list" where
  "negative_rate =
     [(''purchase_date'', JStr ''2024-01-01''), (''original_amount'', JNum (Fin 100)),
      (''currency'', JStr ''USD''), (''custom_rate'', JStr ''-5'')]"

definition unreadable_rate :: "(string \<times> jsval) list" where
  "unreadable_rate =
     [(''purchase_date'', JStr ''2024-01-01''), (''original_amount'', JNum (Fin 100)),
      (''currency'', JStr ''USD''), (''custom_rate'', JStr ''abc'')]"

definition spec_example :: "(string \<times> jsval) list" where
  "spec_example =
     [(''purchase_date'', JStr ''2024-01-01''), (''original_amount'', JNum (Fin 100)),
      (''currency'', JStr ''USD''), (''custom_rate'', JStr ''25.00'')]"

text \<open>A request in US dollars whose \<^verbatim>\<open>custom_rate\<close> is the number 0, and the
  same request without the field.\<close>

definition zero_rate :: "(string \<times> jsval) list" where
  "zero_rate =
     [(''purchase_date'', JStr ''2024-01-01''), (''original_amount'', JNum (Fin 100)),
      (''currency'', JStr ''USD''), (''custom_rate'', JNum (Fin 0))]"

definition no_rate :: "(string \<times> jsval) list" where
  "no_rate =
     [(''purchase_date'', JStr ''2024-01-01''), (''original_amount'', JNum (Fin 100)),
      (''currency'', JStr ''USD'')]"

text \<open>A rate service that answers with an error object instead of a rate.\<close>

definition bank_down :: env where
  "bank_down = lenient\<lparr>rate_api := Resolved (JObj [(''result'', JStr ''error''), (''error-type'', JStr ''invalid-key'')])\<rparr>"





text \<open>A request without a purchase date, a plain request in the local currency,
  and a request whose amount is the number 0.\<close>

definition no_date :: "(string \<times> jsval) list" where
  "no_date = [(''original_amount'', JNum (Fin 100))]"

definition hnl_order :: "(string \<times> jsval) list" where
  "hnl_order =
     [(''purchase_date'', JStr ''2024-01-01''), (''original_amount'', JNum (Fin 100)),
      (''currency'', JStr ''HNL'')]"

definition zero_amount :: "(string \<times> jsval) list" where
  "zero_amount = [(''purchase_date'', JStr ''2024-01-01''), (''original_amount'', JNum (Fin 0))]"

text \<open>A database with two orders and three trackings, a store that enforces the
  foreign key only, and a financials update that gives the amount alone.\<close>

definition stocked :: world where
  "stocked =
     \<lparr>orders = [new_order 1 (JStr ''2024-01-01'') (JNum (Fin 100)) (JStr ''USD'') (JNum (Fin 25)),
                 new_order 2 (JStr ''2024-02-02'') (JNum (Fin 50)) (JStr ''HNL'') (JNum (Fin 1))],
      trackings = [new_tracking 1 (JStr ''A1'') (JStr ''UPS''), new_tracking 2 (JStr ''B2'') JNull,
                   new_tracking 1 (JStr ''C3'') (JStr ''DHL'')],
      seq = 3, tx = None, fetches = 0, console = []\<rparr>"

definition fk_store :: env where
  "fk_store = lenient\<lparr>reject := fk_reject\<rparr>"

definition new_amount :: "(string \<times> jsval) list" where
  "new_amount = [(''original_amount'', JNum (Fin 120))]"

section \<open>Evaluation of the number functions\<close>

lemma floor_numeral_div: "\<lfloor>numeral a / numeral b :: rat\<rfloor> = numeral a div numeral b"
  using floor_divide_of_int_eq [of "numeral a" "numeral b", where ?'a = rat] by simp

lemma show_nat_numeral:
  "show_nat (numeral k) =
     (if (numeral k :: nat) < 10 then [digit_char (numeral k)]
      else show_nat (numeral k div 10) @ [digit_char (numeral k mod 10)])"
  by (rule show_nat.simps)

lemma show_nat_0: "show_nat 0 = ''0''"
  by (simp add: show_nat.simps digit_char_def)

lemma show_nat_1: "show_nat (Suc 0) = ''1''"
  by (simp add: show_nat.simps digit_char_def)

lemmas number_eval =
  toFixed_def show_nat_numeral show_nat_0 show_nat_1 digit_char_def Let_def floor_numeral_div
  parse_float_str_def unsigned_float_def decimal_prefix_def exponent_part_def is_ws_def
  is_digit_def digits_val_def scale10_def starts_with_def neg_def

section \<open>What the parts of a handler change\<close>

lemma query_Inl: "query e s w = (Inl x, w') \<Longrightarrow> w' = w \<and> reject e (orders w) (trackings w) s \<noteq> None"
  by (auto simp: query_def split: option.splits)

lemma query_Inr: "query e s w = (Inr u, w') \<Longrightarrow> w' = exec s w \<and> reject e (orders w) (trackings w) s = None"
  by (auto simp: query_def split: option.splits)

lemma query_lenient: "\<forall>os ts s. reject e os ts s = None \<Longrightarrow> query e s w = (Inr (), exec s w)"
  by (simp add: query_def)

lemma query_rate_api: "query (e\<lparr>rate_api := a\<rparr>) s w = query e s w"
  by (simp add: query_def)

lemma fallback_rate_frame:
  "fallback_rate w = (r, w') \<Longrightarrow>
     r = JNum (Fin (2660 / 100)) \<and> orders w' = orders w \<and> trackings w' = trackings w \<and> seq w' = seq w \<and> tx w' = tx w \<and> fetches w' = fetches w"
  by (auto simp: fallback_rate_def)

lemma getDollarRate_frame:
  "getDollarRate e w = (r, w') \<Longrightarrow>
     orders w' = orders w \<and> trackings w' = trackings w \<and> seq w' = seq w \<and> tx w' = tx w \<and> fetches w' = Suc (fetches w)"
  by (auto simp: getDollarRate_def fallback_rate_def Let_def split: reply.splits if_splits sum.splits)

lemma getDollarRate_fst: "fst (getDollarRate e w) = fst (getDollarRate e w0)"
  by (auto simp: getDollarRate_def fallback_rate_def Let_def split: reply.splits if_splits sum.splits)





lemma post_orders_rate_frame:
  "post_orders_rate e c cr w = (r, w') \<Longrightarrow>
     orders w' = orders w \<and> trackings w' = trackings w \<and> seq w' = seq w \<and> tx w' = tx w"
  by (auto simp: post_orders_rate_def split: if_splits dest: getDollarRate_frame)

lemma post_orders_rate_fst: "fst (post_orders_rate e c cr w) = fst (post_orders_rate e c cr w0)"
  by (simp add: post_orders_rate_def getDollarRate_fst [of e w w0])

lemma post_orders_rate_no_fetch:
  "c \<noteq> JStr ''USD'' \<or> truthy cr \<Longrightarrow>
     post_orders_rate e c cr w = (if c = JStr ''USD'' then JNum (parseFloat cr) else JNum (Fin 1), w)"
  by (auto simp: post_orders_rate_def)

lemma post_orders_rate_falsy:
  "\<not> truthy cr \<Longrightarrow> post_orders_rate e c cr w = post_orders_rate e c JUndefined w"
  by (simp add: post_orders_rate_def)

lemma insert_order_Inl: "insert_order e d a c r w = (Inl x, w') \<Longrightarrow> w' = w"
  by (auto simp: insert_order_def split: prod.splits sum.splits dest: query_Inl)

lemma insert_order_Inr:
  "insert_order e d a c r w = (Inr row, w') \<Longrightarrow>
     row = new_order (seq w) d a c r \<and> orders w' = orders w @ [row] \<and> trackings w' = trackings w
     \<and> seq w' = Suc (seq w) \<and> tx w' = tx w \<and> fetches w' = fetches w"
  by (auto simp: insert_order_def split: prod.splits sum.splits dest!: query_Inr)

lemma insert_order_rate_api: "insert_order (e\<lparr>rate_api := a\<rparr>) d m c r w = insert_order e d m c r w"
  by (simp add: insert_order_def query_rate_api)

lemma insert_trackings_frame:
  "insert_trackings e i xs w = (res, w') \<Longrightarrow>
     orders w' = orders w \<and> seq w' = seq w \<and> tx w' = tx w \<and> fetches w' = fetches w \<and> console w' = console w"
proof (induction xs arbitrary: w)
  case Nil
  then show ?case by simp
next
  case (Cons x xs)
  then show ?case
    by (auto simp: query_def split: sum.splits option.splits prod.splits)
qed

lemma insert_trackings_Inr:
  "insert_trackings e i xs w = (Inr u, w') \<Longrightarrow>
     trackings w' = trackings w @ map (tracking_row i) xs"
proof (induction xs arbitrary: w)
  case Nil
  then show ?case by simp
next
  case (Cons x xs)
  then show ?case
    by (auto simp: query_def tracking_row_def prop_or_undefined_def split: sum.splits option.splits prod.splits)
qed

lemma insert_trackings_accepted:
  "insert_trackings e i xs w = (Inr u, w') \<Longrightarrow> x \<in> set xs \<Longrightarrow>
     \<exists>os ts. reject e os ts (InsertTracking i (prop_or_undefined x ''tracking_number'')
                                (prop_or_undefined x ''carrier'')) = None"
proof (induction xs arbitrary: w)
  case Nil
  then show ?case by simp
next
  case (Cons y ys)
  from Cons.prems(1) obtain n c w1 where
    n: "get_prop y ''tracking_number'' = Inr n" and c: "get_prop y ''carrier'' = Inr c"
    and q: "reject e (orders w) (trackings w) (InsertTracking i n c) = None"
    and rest: "insert_trackings e i ys w1 = (Inr u, w')"
    by (auto simp: query_def split: sum.splits option.splits prod.splits)
  show ?case
  proof (cases "x = y")
    case True
    with n c q show ?thesis by (auto simp: prop_or_undefined_def)
  next
    case False
    with Cons.prems(2) have "x \<in> set ys" by simp
    with Cons.IH [OF rest] show ?thesis by blast
  qed
qed

lemma insert_trackings_ok:
  "\<forall>os ts s. reject e os ts s = None \<Longrightarrow> list_all is_object xs \<Longrightarrow>
     \<exists>w'. insert_trackings e i xs w = (Inr (), w')"
proof (induction xs arbitrary: w)
  case Nil
  then show ?case by simp
next
  case (Cons x xs)
  from Cons.prems(2) obtain kvs where x: "x = JObj kvs" by (cases x) auto
  from Cons.prems(2) have "list_all is_object xs" by simp
  from Cons.IH [OF Cons.prems(1) this] x Cons.prems(1) show ?case
    by (simp add: query_lenient)
qed

lemma insert_trackings_rate_api:
  "insert_trackings (e\<lparr>rate_api := a\<rparr>) i xs w = insert_trackings e i xs w"
  by (induction xs arbitrary: w) (simp_all add: query_rate_api split: sum.splits prod.splits)

lemma save_trackings_frame:
  "save_trackings e i trs w = (res, w') \<Longrightarrow>
     orders w' = orders w \<and> seq w' = seq w \<and> tx w' = tx w \<and> fetches w' = fetches w \<and> console w' = console w"
  by (auto simp: save_trackings_def split: if_splits sum.splits dest: insert_trackings_frame)

lemma save_trackings_Inr:
  "save_trackings e i trs w = (Inr u, w') \<Longrightarrow>
     trackings w' = trackings w @ map (tracking_row i) (track_items trs)"
  by (auto simp: save_trackings_def track_items_def split: if_splits sum.splits dest: insert_trackings_Inr)

lemma save_trackings_accepted:
  "save_trackings e i trs w = (Inr u, w') \<Longrightarrow> x \<in> set (track_items trs) \<Longrightarrow>
     \<exists>os ts. reject e os ts (InsertTracking i (prop_or_undefined x ''tracking_number'')
                                (prop_or_undefined x ''carrier'')) = None"
proof -
  assume st: "save_trackings e i trs w = (Inr u, w')" and x: "x \<in> set (track_items trs)"
  have g: "truthy trs \<and> length_positive trs"
  proof (rule ccontr)
    assume "\<not> (truthy trs \<and> length_positive trs)"
    then have "track_items trs = []" by (auto simp: track_items_def)
    with x show False by simp
  qed
  obtain xs where el: "elements trs = Inr xs" and xin: "x \<in> set xs"
  proof (cases "elements trs")
    case (Inl a)
    then have "track_items trs = []" by (simp add: track_items_def)
    with x show ?thesis by simp
  next
    case (Inr xs)
    with g have "track_items trs = xs" by (simp add: track_items_def)
    with x Inr that show ?thesis by simp
  qed
  from st g el have "insert_trackings e i xs w = (Inr u, w')"
    by (simp add: save_trackings_def)
  from insert_trackings_accepted [OF this xin] show ?thesis .
qed

lemma save_trackings_ok:
  assumes "\<forall>os ts s. reject e os ts s = None" and "well_formed_trackings trs"
  shows "\<exists>w'. save_trackings e i trs w = (Inr (), w')"
proof (cases trs)
  case (JArr xs)
  with assms(2) have "list_all is_object xs" by simp
  from insert_trackings_ok [OF assms(1) this] JArr show ?thesis
    by (auto simp: save_trackings_def)
qed (use assms(2) in \<open>simp_all add: save_trackings_def\<close>)

lemma save_trackings_rate_api:
  "save_trackings (e\<lparr>rate_api := a\<rparr>) i trs w = save_trackings e i trs w"
  by (simp add: save_trackings_def insert_trackings_rate_api cong: sum.case_cong)

lemma exec_Rollback_snapshot:
  "tx w' = Some (os, ts) \<Longrightarrow> orders (exec Rollback w') = os \<and> trackings (exec Rollback w') = ts"
  by simp

lemma exec_Rollback_fetches: "fetches (exec Rollback w) = fetches w"
  by (simp split: option.splits)

lemma field_Cons: "field ((k, v) # kvs) k' = (if k' = k then v else field kvs k')"
  by (simp add: field_def)

lemma to_param_field: "to_param (field kvs k) = column (map_of kvs k)"
  by (simp add: to_param_def field_def column_def split: option.splits)

lemma insert_trackings_rows:
  "insert_trackings e i xs w = (Inr u, w') \<Longrightarrow>
     trackings w' = trackings w @ map (tracking_of i) xs"
proof (induction xs arbitrary: w)
  case Nil
  then show ?case by simp
next
  case (Cons x xs)
  from Cons.prems obtain n c where
    n: "get_prop x ''tracking_number'' = Inr n" and c: "get_prop x ''carrier'' = Inr c"
    and q: "reject e (orders w) (trackings w) (InsertTracking i n c) = None"
    and rest: "insert_trackings e i xs (exec (InsertTracking i n c) w) = (Inr u, w')"
    by (auto simp: query_def split: sum.splits option.splits prod.splits)
  have "new_tracking i n c = tracking_of i x"
    using n c by (cases x) (auto simp: new_tracking_def to_param_field, simp_all add: to_param_def)
  with Cons.IH [OF rest] show ?case by simp
qed

lemma length_positive_JArr: "length_positive (JArr xs) = (xs \<noteq> [])"
  by (simp add: length_positive_def)

lemma save_trackings_rows:
  assumes "save_trackings e i (JArr xs) w = (Inr u, w')"
  shows "trackings w' = trackings w @ map (tracking_of i) xs"
proof (cases "xs = []")
  case True
  with assms show ?thesis by (simp add: save_trackings_def length_positive_JArr)
next
  case False
  with assms have "insert_trackings e i xs w = (Inr u, w')"
    by (simp add: save_trackings_def length_positive_JArr)
  then show ?thesis by (rule insert_trackings_rows)
qed

lemma save_trackings_absent:
  "\<not> truthy trs \<Longrightarrow> save_trackings e i trs w = (Inr (), w)"
  by (simp add: save_trackings_def)

lemma js_add_defined: "js_add n v r \<noteq> JUndefined"
  by (cases v) simp_all

section \<open>The first registration of POST /api/orders, stage by stage\<close>

lemma post_orders_try_Inr:
  assumes "post_orders_try e body w = (Inr r, w')"
  shows "r = \<lparr>status = 200, json = JObj [(''success'', JBool True), (''message'', JStr ''Pedido guardado''),
                                           (''orderId'', JNum (Fin (of_nat (seq w))))]\<rparr>
       \<and> orders w' = orders w @ [new_order (seq w) (field body ''purchase_date'') (field body ''original_amount'')
             (field body ''currency'')
             (fst (post_orders_rate e (field body ''currency'') (field body ''custom_rate'') w))]
       \<and> trackings w' = trackings w @ map (tracking_row (seq w)) (track_items (field body ''trackings''))
       \<and> seq w' = Suc (seq w) \<and> tx w' = None"
proof -
  let ?cur = "field body ''currency''" and ?cr = "field body ''custom_rate''"
  from assms obtain u1 w1 where q1: "query e Begin w = (Inr u1, w1)"
    by (auto simp: post_orders_try_def Let_def split: prod.splits sum.splits)
  obtain rate w2 where pr: "post_orders_rate e ?cur ?cr w1 = (rate, w2)"
    by (cases "post_orders_rate e ?cur ?cr w1")
  from assms q1 pr obtain row w3 where
    io: "insert_order e (field body ''purchase_date'') (field body ''original_amount'') ?cur rate w2 = (Inr row, w3)"
    by (auto simp: post_orders_try_def Let_def split: prod.splits sum.splits)
  from assms q1 pr io obtain u4 w4 where
    st: "save_trackings e (oid row) (field body ''trackings'') w3 = (Inr u4, w4)"
    by (auto simp: post_orders_try_def Let_def split: prod.splits sum.splits)
  from assms q1 pr io st obtain u5 where
    cm: "query e Commit w4 = (Inr u5, w')"
    and r: "r = \<lparr>status = 200, json = JObj [(''success'', JBool True), (''message'', JStr ''Pedido guardado''),
                                           (''orderId'', JNum (Fin (of_nat (oid row))))]\<rparr>"
    by (auto simp: post_orders_try_def Let_def split: prod.splits sum.splits)
  have w1: "w1 = exec Begin w" using query_Inr [OF q1] by simp
  have rate: "rate = fst (post_orders_rate e ?cur ?cr w)"
    using pr post_orders_rate_fst [of e ?cur ?cr w1 w] by simp
  note f2 = post_orders_rate_frame [OF pr]
  note f3 = insert_order_Inr [OF io]
  note f4 = save_trackings_frame [OF st] save_trackings_Inr [OF st]
  have w': "w' = exec Commit w4" using query_Inr [OF cm] by simp
  have "oid row = seq w" using f3 f2 w1 by (simp add: new_order_def)
  moreover have "orders w' = orders w @ [row]" using w' f4 f3 f2 w1 by simp
  moreover have "trackings w' = trackings w @ map (tracking_row (seq w)) (track_items (field body ''trackings''))"
    using w' f4 f3 f2 w1 \<open>oid row = seq w\<close> by simp
  moreover have "seq w' = Suc (seq w)" using w' f4 f3 f2 w1 by simp
  moreover have "tx w' = None" using w' by simp
  ultimately show ?thesis using r f3 f2 w1 rate by simp
qed

lemma post_orders_try_Inl:
  assumes "post_orders_try e body w = (Inl x, w')" and "tx w = None"
  shows "orders (exec Rollback w') = orders w \<and> trackings (exec Rollback w') = trackings w"
proof (cases "query e Begin w")
  case (Pair res w1)
  show ?thesis
  proof (cases res)
    case (Inl y)
    with Pair assms have "w' = w"
      by (auto simp: post_orders_try_def Let_def dest: query_Inl)
    with assms show ?thesis by simp
  next
    case (Inr u1)
    let ?cur = "field body ''currency''" and ?cr = "field body ''custom_rate''"
    have w1: "w1 = exec Begin w" using Pair Inr by (auto dest: query_Inr)
    obtain rate w2 where pr: "post_orders_rate e ?cur ?cr w1 = (rate, w2)"
      by (cases "post_orders_rate e ?cur ?cr w1")
    note f2 = post_orders_rate_frame [OF pr]
    have tx2: "tx w2 = Some (orders w, trackings w)" using f2 w1 by simp
    obtain res3 w3 where io: "insert_order e (field body ''purchase_date'') (field body ''original_amount'') ?cur rate w2 = (res3, w3)"
      by (cases "insert_order e (field body ''purchase_date'') (field body ''original_amount'') ?cur rate w2")
    show ?thesis
    proof (cases res3)
      case (Inl y)
      with io have "w3 = w2" by (auto dest: insert_order_Inl)
      moreover from assms Pair Inr pr io Inl have "w' = w3"
        by (simp add: post_orders_try_def Let_def)
      ultimately show ?thesis using tx2 by simp
    next
      case (Inr row)
      note f3 = insert_order_Inr [OF io [unfolded Inr]]
      have tx3: "tx w3 = Some (orders w, trackings w)" using f3 tx2 by simp
      obtain res4 w4 where st: "save_trackings e (oid row) (field body ''trackings'') w3 = (res4, w4)"
        by (cases "save_trackings e (oid row) (field body ''trackings'') w3")
      have tx4: "tx w4 = Some (orders w, trackings w)" using save_trackings_frame [OF st] tx3 by simp
      show ?thesis
      proof (cases res4)
        case (Inl y)
        with assms Pair \<open>res = Inr u1\<close> pr io Inr st have "w' = w4"
          by (simp add: post_orders_try_def Let_def)
        then show ?thesis using tx4 by simp
      next
        case (Inr u4)
        with assms Pair \<open>res = Inr u1\<close> pr io \<open>res3 = Inr row\<close> st
        have "query e Commit w4 = (Inl x, w')"
          by (auto simp: post_orders_try_def Let_def split: prod.splits sum.splits)
        then have "w' = w4" by (auto dest: query_Inl)
        then show ?thesis using tx4 by simp
      qed
    qed
  qed
qed

lemma post_orders_try_accepted:
  assumes "post_orders_try e body w = (Inr r, w')" and "x \<in> set (track_items (field body ''trackings''))"
  shows "\<exists>os ts. reject e os ts (InsertTracking (seq w) (prop_or_undefined x ''tracking_number'')
                                (prop_or_undefined x ''carrier'')) = None"
proof -
  let ?cur = "field body ''currency''" and ?cr = "field body ''custom_rate''"
  from assms obtain u1 w1 where q1: "query e Begin w = (Inr u1, w1)"
    by (auto simp: post_orders_try_def Let_def split: prod.splits sum.splits)
  obtain rate w2 where pr: "post_orders_rate e ?cur ?cr w1 = (rate, w2)"
    by (cases "post_orders_rate e ?cur ?cr w1")
  from assms q1 pr obtain row w3 where
    io: "insert_order e (field body ''purchase_date'') (field body ''original_amount'') ?cur rate w2 = (Inr row, w3)"
    by (auto simp: post_orders_try_def Let_def split: prod.splits sum.splits)
  from assms q1 pr io obtain u4 w4 where
    st: "save_trackings e (oid row) (field body ''trackings'') w3 = (Inr u4, w4)"
    by (auto simp: post_orders_try_def Let_def split: prod.splits sum.splits)
  have "oid row = seq w"
    using insert_order_Inr [OF io] post_orders_rate_frame [OF pr] query_Inr [OF q1]
    by (simp add: new_order_def)
  with save_trackings_accepted [OF st assms(2)] show ?thesis by simp
qed

lemma post_orders_try_fetches:
  assumes "post_orders_try e body w = (res, w')"
    and "field body ''currency'' \<noteq> JStr ''USD'' \<or> truthy (field body ''custom_rate'')"
  shows "fetches w' = fetches w"
proof (cases "query e Begin w")
  case (Pair res1 w1)
  show ?thesis
  proof (cases res1)
    case (Inl y)
    with Pair assms(1) have "w' = w"
      by (auto simp: post_orders_try_def Let_def dest: query_Inl)
    then show ?thesis by simp
  next
    case (Inr u1)
    let ?cur = "field body ''currency''" and ?cr = "field body ''custom_rate''"
    let ?rate = "if ?cur = JStr ''USD'' then JNum (parseFloat ?cr) else JNum (Fin 1)"
    have w1: "w1 = exec Begin w" using Pair Inr by (auto dest: query_Inr)
    have pr: "post_orders_rate e ?cur ?cr w1 = (?rate, w1)"
      using post_orders_rate_no_fetch [OF assms(2)] .
    obtain res3 w3 where io: "insert_order e (field body ''purchase_date'') (field body ''original_amount'') ?cur ?rate w1 = (res3, w3)"
      by (cases "insert_order e (field body ''purchase_date'') (field body ''original_amount'') ?cur ?rate w1")
    show ?thesis
    proof (cases res3)
      case (Inl y)
      with io have "w3 = w1" by (auto dest: insert_order_Inl)
      moreover from assms(1) Pair Inr pr io Inl have "w' = w3"
        by (simp add: post_orders_try_def Let_def)
      ultimately show ?thesis using w1 by simp
    next
      case (Inr row)
      note f3 = insert_order_Inr [OF io [unfolded Inr]]
      obtain res4 w4 where st: "save_trackings e (oid row) (field body ''trackings'') w3 = (res4, w4)"
        by (cases "save_trackings e (oid row) (field body ''trackings'') w3")
      have f4: "fetches w4 = fetches w" using save_trackings_frame [OF st] f3 w1 by simp
      show ?thesis
      proof (cases res4)
        case (Inl y)
        with assms(1) Pair \<open>res1 = Inr u1\<close> pr io Inr st have "w' = w4"
          by (simp add: post_orders_try_def Let_def)
        then show ?thesis using f4 by simp
      next
        case (Inr u4)
        with assms(1) Pair \<open>res1 = Inr u1\<close> pr io \<open>res3 = Inr row\<close> st
        have "\<exists>res5. query e Commit w4 = (res5, w')"
          by (auto simp: post_orders_try_def Let_def split: prod.splits sum.splits)
        then obtain res5 where "query e Commit w4 = (res5, w')" ..
        then have "w' = w4 \<or> w' = exec Commit w4"
          by (cases res5) (auto dest: query_Inl query_Inr)
        then show ?thesis using f4 by auto
      qed
    qed
  qed
qed

lemma post_orders_fetches:
  assumes "post_orders e body w = (r, w')"
    and "field body ''currency'' \<noteq> JStr ''USD'' \<or> truthy (field body ''custom_rate'')"
  shows "fetches w' = fetches w"
proof (cases "post_orders_try e body w")
  case (Pair res w1)
  from post_orders_try_fetches [OF Pair assms(2)] have "fetches w1 = fetches w" .
  moreover from Pair assms(1) have "w' = w1 \<or> w' = exec Rollback w1"
    by (auto simp: post_orders_def split: sum.splits)
  ultimately show ?thesis using exec_Rollback_fetches by auto
qed

lemma post_orders_success:
  assumes "post_orders e body w = (r, w')" and "status r = 200"
  shows "orders w' = orders w @
              [new_order (seq w) (field body ''purchase_date'') (field body ''original_amount'')
                 (field body ''currency'')
                 (fst (post_orders_rate e (field body ''currency'') (field body ''custom_rate'') w))]"
proof (cases "post_orders_try e body w")
  case (Pair res w1)
  show ?thesis
  proof (cases res)
    case (Inl x)
    with Pair assms show ?thesis by (auto simp: post_orders_def)
  next
    case (Inr r1)
    with Pair assms(1) have "w' = w1" by (auto simp: post_orders_def)
    with post_orders_try_Inr [OF Pair [unfolded Inr]] show ?thesis by simp
  qed
qed

lemma post_orders_accepts:
  assumes "\<forall>os ts s. reject e os ts s = None" and "well_formed_trackings (field body ''trackings'')"
  shows "status (fst (post_orders e body w)) = 200"
proof -
  let ?cur = "field body ''currency''" and ?cr = "field body ''custom_rate''"
  define w1 where "w1 = exec Begin w"
  have q1: "query e Begin w = (Inr (), w1)"
    by (simp add: query_lenient [OF assms(1)] w1_def)
  obtain rate w2 where pr: "post_orders_rate e ?cur ?cr w1 = (rate, w2)"
    by (cases "post_orders_rate e ?cur ?cr w1")
  define row where
    "row = new_order (seq w2) (field body ''purchase_date'') (field body ''original_amount'') ?cur rate"
  define w3 where
    "w3 = exec (InsertOrder (field body ''purchase_date'') (field body ''original_amount'') ?cur rate) w2"
  have io: "insert_order e (field body ''purchase_date'') (field body ''original_amount'') ?cur rate w2
      = (Inr row, w3)"
    by (simp add: insert_order_def query_lenient [OF assms(1)] row_def w3_def)
  obtain w4 where st: "save_trackings e (oid row) (field body ''trackings'') w3 = (Inr (), w4)"
    using save_trackings_ok [OF assms] by blast
  define w5 where "w5 = exec Commit w4"
  have cm: "query e Commit w4 = (Inr (), w5)"
    by (simp add: query_lenient [OF assms(1)] w5_def)
  have "\<exists>r w'. post_orders_try e body w = (Inr r, w') \<and> status r = 200"
    unfolding post_orders_try_def Let_def
    by (simp add: q1 pr io st cm)
  then show ?thesis by (auto simp: post_orders_def)
qed

lemma post_orders_rate_api:
  assumes "field body ''currency'' \<noteq> JStr ''USD'' \<or> truthy (field body ''custom_rate'')"
  shows "post_orders (e\<lparr>rate_api := a\<rparr>) body w = post_orders e body w"
proof -
  have "post_orders_try (e\<lparr>rate_api := a\<rparr>) body w = post_orders_try e body w"
    unfolding post_orders_try_def Let_def
    by (simp add: post_orders_rate_no_fetch [OF assms] query_rate_api insert_order_rate_api
          save_trackings_rate_api cong: sum.case_cong prod.case_cong)
  then show ?thesis by (simp add: post_orders_def)
qed

lemma post_orders_never_400: "status (fst (post_orders e body w)) \<noteq> 400"
proof (cases "post_orders_try e body w")
  case (Pair res w1)
  show ?thesis
  proof (cases res)
    case (Inl x)
    with Pair show ?thesis by (simp add: post_orders_def)
  next
    case (Inr r)
    with Pair post_orders_try_Inr [of e body w r w1] show ?thesis
      by (simp add: post_orders_def)
  qed
qed

lemma post_orders_hnl_as_post_orders:
  "snd (post_orders_hnl e body w) = snd (post_orders e ((''currency'', JStr ''HNL'') # body) w)
   \<and> status (fst (post_orders_hnl e body w)) =
       status (fst (post_orders e ((''currency'', JStr ''HNL'') # body) w))"
  by (simp add: post_orders_hnl_def post_orders_def post_orders_hnl_try_def post_orders_try_def
        post_orders_rate_def field_Cons Let_def split: prod.splits sum.splits)

lemma app_post_orders_first: "app_post_orders = post_orders"
  by (simp add: app_post_orders_def)

lemma post_orders_try_saved:
  assumes "post_orders_try e body w = (Inr r, w')"
  shows "\<exists>w3 u w4. save_trackings e (seq w) (field body ''trackings'') w3 = (Inr u, w4)
           \<and> trackings w3 = trackings w \<and> trackings w' = trackings w4"
proof -
  let ?cur = "field body ''currency''" and ?cr = "field body ''custom_rate''"
  from assms obtain u1 w1 where q1: "query e Begin w = (Inr u1, w1)"
    by (auto simp: post_orders_try_def Let_def split: prod.splits sum.splits)
  obtain rate w2 where pr: "post_orders_rate e ?cur ?cr w1 = (rate, w2)"
    by (cases "post_orders_rate e ?cur ?cr w1")
  from assms q1 pr obtain row w3 where
    io: "insert_order e (field body ''purchase_date'') (field body ''original_amount'') ?cur rate w2 = (Inr row, w3)"
    by (auto simp: post_orders_try_def Let_def split: prod.splits sum.splits)
  from assms q1 pr io obtain u4 w4 where
    st: "save_trackings e (oid row) (field body ''trackings'') w3 = (Inr u4, w4)"
    by (auto simp: post_orders_try_def Let_def split: prod.splits sum.splits)
  from assms q1 pr io st obtain u5 where cm: "query e Commit w4 = (Inr u5, w')"
    by (auto simp: post_orders_try_def Let_def split: prod.splits sum.splits)
  have "oid row = seq w" and "trackings w3 = trackings w"
    using insert_order_Inr [OF io] post_orders_rate_frame [OF pr] query_Inr [OF q1]
    by (simp_all add: new_order_def)
  moreover have "trackings w' = trackings w4" using query_Inr [OF cm] by simp
  ultimately show ?thesis using st by auto
qed

lemma post_orders_rate_defined: "fst (post_orders_rate e c cr w) \<noteq> JUndefined"
  by (simp add: post_orders_rate_def getDollarRate_def fallback_rate_def Let_def js_add_defined
        split: reply.splits sum.splits)

section \<open>The examples, run\<close>

lemmas handler_eval =
  post_orders_def post_orders_try_def post_orders_rate_def insert_order_def save_trackings_def
  query_def getDollarRate_def fallback_rate_def length_positive_def field_def new_order_def
  new_tracking_def to_param_def lenient_def empty_world_def Let_def track_items_def tracking_row_def
  prop_or_undefined_def

lemmas second_eval =
  post_orders_second_def post_orders_second_try_def app_post_orders_def

lemma two_trackings_run:
  "post_orders lenient two_trackings empty_world =
   (\<lparr>status = 200, json = JObj [(''success'', JBool True), (''message'', JStr ''Pedido guardado''), (''orderId'', JNum (Fin 1))]\<rparr>,
    \<lparr>orders = [\<lparr>oid = 1, purchase_date = JStr ''2024-01-01'', original_amount = JNum (Fin 100), currency = JStr ''HNL'',
        exchange_rate = JNum (Fin 1), freight_cost_hnl = JNum (Fin 0), selling_price_hnl = JNum (Fin 0)\<rparr>],
     trackings = [\<lparr>order_id = 1, tracking_number = JStr ''A1'', carrier = JStr ''UPS''\<rparr>,
                  \<lparr>order_id = 1, tracking_number = JStr ''B2'', carrier = JNull\<rparr>], seq = 2, tx = None, fetches = 0, console = []\<rparr>)"
  by (simp add: handler_eval number_eval two_trackings_def)

lemma bad_tracking_run:
  "post_orders picky bad_tracking empty_world =
   (\<lparr>status = 500, json = JObj [(''error'', JStr ''refused'')]\<rparr>,
    \<lparr>orders = [], trackings = [], seq = 2, tx = None, fetches = 0, console = []\<rparr>)"
  by (simp add: handler_eval number_eval bad_tracking_def picky_def)

lemma two_trackings_hnl_run:
  "post_orders_hnl lenient two_trackings empty_world =
   (\<lparr>status = 200, json = JObj [(''success'', JBool True), (''message'', JStr ''Pedido guardado'')]\<rparr>,
    \<lparr>orders = [\<lparr>oid = 1, purchase_date = JStr ''2024-01-01'', original_amount = JNum (Fin 100), currency = JStr ''HNL'',
        exchange_rate = JNum (Fin 1), freight_cost_hnl = JNum (Fin 0), selling_price_hnl = JNum (Fin 0)\<rparr>],
     trackings = [\<lparr>order_id = 1, tracking_number = JStr ''A1'', carrier = JStr ''UPS''\<rparr>,
                  \<lparr>order_id = 1, tracking_number = JStr ''B2'', carrier = JNull\<rparr>], seq = 2, tx = None, fetches = 0, console = []\<rparr>)"
  by (simp add: handler_eval post_orders_hnl_def post_orders_hnl_try_def two_trackings_def)

lemma negative_rate_run:
  "post_orders lenient negative_rate empty_world =
   (\<lparr>status = 200, json = JObj [(''success'', JBool True), (''message'', JStr ''Pedido guardado''), (''orderId'', JNum (Fin 1))]\<rparr>,
    \<lparr>orders = [\<lparr>oid = 1, purchase_date = JStr ''2024-01-01'', original_amount = JNum (Fin 100), currency = JStr ''USD'',
        exchange_rate = JNum (Fin (- 5)), freight_cost_hnl = JNum (Fin 0), selling_price_hnl = JNum (Fin 0)\<rparr>],
     trackings = [], seq = 2, tx = None, fetches = 0, console = []\<rparr>)"
  by (simp add: handler_eval number_eval negative_rate_def)

lemma unreadable_rate_run:
  "post_orders lenient unreadable_rate empty_world =
   (\<lparr>status = 200, json = JObj [(''success'', JBool True), (''message'', JStr ''Pedido guardado''), (''orderId'', JNum (Fin 1))]\<rparr>,
    \<lparr>orders = [\<lparr>oid = 1, purchase_date = JStr ''2024-01-01'', original_amount = JNum (Fin 100), currency = JStr ''USD'',
        exchange_rate = JNum NaN, freight_cost_hnl = JNum (Fin 0), selling_price_hnl = JNum (Fin 0)\<rparr>],
     trackings = [], seq = 2, tx = None, fetches = 0, console = []\<rparr>)"
  by (simp add: handler_eval number_eval unreadable_rate_def)

lemma spec_example_run:
  "post_orders lenient spec_example empty_world =
   (\<lparr>status = 200, json = JObj [(''success'', JBool True), (''message'', JStr ''Pedido guardado''), (''orderId'', JNum (Fin 1))]\<rparr>,
    \<lparr>orders = [\<lparr>oid = 1, purchase_date = JStr ''2024-01-01'', original_amount = JNum (Fin 100), currency = JStr ''USD'',
        exchange_rate = JNum (Fin 25), freight_cost_hnl = JNum (Fin 0), selling_price_hnl = JNum (Fin 0)\<rparr>],
     trackings = [], seq = 2, tx = None, fetches = 0, console = []\<rparr>)"
  by (simp add: handler_eval number_eval spec_example_def)

lemma no_rate_run:
  "post_orders lenient no_rate empty_world =
   (\<lparr>status = 200, json = JObj [(''success'', JBool True), (''message'', JStr ''Pedido guardado''), (''orderId'', JNum (Fin 1))]\<rparr>,
    \<lparr>orders = [\<lparr>oid = 1, purchase_date = JStr ''2024-01-01'', original_amount = JNum (Fin 100), currency = JStr ''USD'',
        exchange_rate = JNum (Fin (133 / 5)), freight_cost_hnl = JNum (Fin 0), selling_price_hnl = JNum (Fin 0)\<rparr>],
     trackings = [], seq = 2, tx = None, fetches = 1, console = [''Usando tasa respaldo 26.60'']\<rparr>)"
  by (simp add: handler_eval number_eval no_rate_def)

lemma no_rate_bank_down_run:
  "post_orders bank_down no_rate empty_world =
   (\<lparr>status = 200, json = JObj [(''success'', JBool True), (''message'', JStr ''Pedido guardado''), (''orderId'', JNum (Fin 1))]\<rparr>,
    \<lparr>orders = [\<lparr>oid = 1, purchase_date = JStr ''2024-01-01'', original_amount = JNum (Fin 100), currency = JStr ''USD'',
        exchange_rate = JNum (Fin (133 / 5)), freight_cost_hnl = JNum (Fin 0), selling_price_hnl = JNum (Fin 0)\<rparr>],
     trackings = [], seq = 2, tx = None, fetches = 1, console = [''Usando tasa respaldo 26.60'']\<rparr>)"
  by (simp add: handler_eval number_eval no_rate_def bank_down_def)

lemma put_financials_run:
  "put_financials lenient 1 new_amount stocked =
     (\<lparr>status = 200,
       json = JObj [(''success'', JBool True), (''message'', JStr ''Pedido actualizado'')]\<rparr>,
      stocked\<lparr>orders :=
        [\<lparr>oid = 1, purchase_date = JStr ''2024-01-01'', original_amount = JNum (Fin 120),
          currency = JStr ''USD'', exchange_rate = JNum (Fin 25),
          freight_cost_hnl = JNum (Fin 0), selling_price_hnl = JNum (Fin 0)\<rparr>,
         \<lparr>oid = 2, purchase_date = JStr ''2024-02-02'', original_amount = JNum (Fin 50),
          currency = JStr ''HNL'', exchange_rate = JNum (Fin 1),
          freight_cost_hnl = JNum (Fin 0), selling_price_hnl = JNum (Fin 0)\<rparr>]\<rparr>)"
  by (simp add: put_financials_def query_def lenient_def stocked_def new_amount_def field_def
        new_order_def set_financials_def to_param_def)

lemma delete_order_run:
  "delete_order fk_store 1 stocked =
     (\<lparr>status = 200,
       json = JObj [(''success'', JBool True), (''message'', JStr ''Pedido eliminado'')]\<rparr>,
      stocked\<lparr>orders := [new_order 2 (JStr ''2024-02-02'') (JNum (Fin 50)) (JStr ''HNL'') (JNum (Fin 1))],
              trackings := [new_tracking 2 (JStr ''B2'') JNull]\<rparr>)"
  by (simp add: delete_order_def query_def fk_store_def lenient_def stocked_def new_order_def
        new_tracking_def to_param_def)



section \<open>Creating an order\<close>

text \<open>
  C1. A request handled by the first registration of \<^verbatim>\<open>POST /api/orders\<close> on an
  idle connection ends with no transaction open. Either it succeeds (status
  200): then \<^verbatim>\<open>orders\<close> has exactly one new row, with the new id and the date,
  amount and currency of the request, and for a request whose \<^verbatim>\<open>trackings\<close> is
  an array \<^verbatim>\<open>trackings\<close> has, after the old rows, one row for each element, in
  the order of the array, with the new id and the element's number and carrier
  (these are all the rows with that id when the id was not referenced before);
  the rows are committed, so a later \<^verbatim>\<open>ROLLBACK\<close> does not remove them. Or it
  answers 500 and both tables are as they were before the request. A request
  one of whose tracking inserts the store refuses does not succeed.
\<close>

theorem create_order_atomic:
  assumes "post_orders e body w = (r, w')" and "tx w = None"
  shows "tx w' = None
       \<and> (status r = 200 \<longrightarrow>
            orders w' = orders w @
              [\<lparr>oid = seq w,
                purchase_date = column (map_of body ''purchase_date''),
                original_amount = column (map_of body ''original_amount''),
                currency = column (map_of body ''currency''),
                exchange_rate =
                  fst (post_orders_rate e (field body ''currency'') (field body ''custom_rate'') w),
                freight_cost_hnl = JNum (Fin 0), selling_price_hnl = JNum (Fin 0)\<rparr>]
          \<and> (\<forall>xs. map_of body ''trackings'' = Some (JArr xs) \<longrightarrow>
                 trackings w' = trackings w @ map (tracking_of (seq w)) xs
               \<and> (seq w \<notin> order_id ` set (trackings w) \<longrightarrow>
                    filter (\<lambda>t. order_id t = seq w) (trackings w') = map (tracking_of (seq w)) xs))
          \<and> (map_of body ''trackings'' = None \<longrightarrow> trackings w' = trackings w)
          \<and> trackings w' = trackings w @
              map (tracking_row (seq w)) (track_items (field body ''trackings''))
          \<and> exec Rollback w' = w')
       \<and> (status r \<noteq> 200 \<longrightarrow>
            status r = 500 \<and> orders w' = orders w \<and> trackings w' = trackings w)
       \<and> (\<forall>xs kvs. map_of body ''trackings'' = Some (JArr xs) \<and> JObj kvs \<in> set xs
              \<and> (\<forall>os ts. reject e os ts (InsertTracking (seq w) (field kvs ''tracking_number'')
                                         (field kvs ''carrier'')) \<noteq> None) \<longrightarrow>
            status r \<noteq> 200)
       \<and> ((\<exists>x \<in> set (track_items (field body ''trackings'')). \<forall>os ts.
              reject e os ts (InsertTracking (seq w) (prop_or_undefined x ''tracking_number'')
                                (prop_or_undefined x ''carrier'')) \<noteq> None) \<longrightarrow>
            status r \<noteq> 200)"
proof (cases "post_orders_try e body w")
  case (Pair res w1)
  show ?thesis
  proof (cases res)
    case (Inl x)
    with Pair assms have "status r = 500" and w': "w' = exec Rollback w1"
      by (auto simp: post_orders_def)
    moreover have "orders (exec Rollback w1) = orders w \<and> trackings (exec Rollback w1) = trackings w"
      using post_orders_try_Inl [OF Pair [unfolded Inl] assms(2)] .
    moreover have "tx (exec Rollback w1) = None"
      by (cases "tx w1") auto
    ultimately show ?thesis by simp
  next
    case (Inr r1)
    with Pair assms have eq: "r = r1" "w' = w1"
      by (auto simp: post_orders_def)
    note f = post_orders_try_Inr [OF Pair [unfolded Inr]]
    note g = post_orders_try_accepted [OF Pair [unfolded Inr]]
    from post_orders_try_saved [OF Pair [unfolded Inr]] obtain w3 u w4 where
      st: "save_trackings e (seq w) (field body ''trackings'') w3 = (Inr u, w4)"
      and t3: "trackings w3 = trackings w" and t4: "trackings w1 = trackings w4"
      by blast
    have ok: "status r = 200" using f eq by simp
    have txn: "tx w' = None" using f eq by simp
    have row: "orders w' = orders w @
              [\<lparr>oid = seq w,
                purchase_date = column (map_of body ''purchase_date''),
                original_amount = column (map_of body ''original_amount''),
                currency = column (map_of body ''currency''),
                exchange_rate =
                  fst (post_orders_rate e (field body ''currency'') (field body ''custom_rate'') w),
                freight_cost_hnl = JNum (Fin 0), selling_price_hnl = JNum (Fin 0)\<rparr>]"
      using f eq post_orders_rate_defined [of e "field body ''currency''" "field body ''custom_rate''" w]
      by (simp add: new_order_def to_param_field) (simp add: to_param_def)
    have same: "filter (\<lambda>t. order_id t = seq w) (map (tracking_of (seq w)) xs) = map (tracking_of (seq w)) xs" for xs
    proof (induction xs)
      case (Cons y ys)
      then show ?case by (cases y) simp_all
    qed simp
    have rows: "trackings w' = trackings w @ map (tracking_of (seq w)) xs
               \<and> (seq w \<notin> order_id ` set (trackings w) \<longrightarrow>
                    filter (\<lambda>t. order_id t = seq w) (trackings w') = map (tracking_of (seq w)) xs)"
      if m: "map_of body ''trackings'' = Some (JArr xs)" for xs
    proof -
      from m have "field body ''trackings'' = JArr xs" by (simp add: field_def)
      with st have "trackings w4 = trackings w3 @ map (tracking_of (seq w)) xs"
        by (simp add: save_trackings_rows)
      then have a: "trackings w' = trackings w @ map (tracking_of (seq w)) xs"
        using t3 t4 eq by simp
      have "filter (\<lambda>t. order_id t = seq w) (trackings w) = []"
        if "seq w \<notin> order_id ` set (trackings w)"
        using that by (auto simp: filter_empty_conv image_def)
      with a same show ?thesis by simp
    qed
    have none: "trackings w' = trackings w" if m: "map_of body ''trackings'' = None"
    proof -
      from m have "\<not> truthy (field body ''trackings'')" by (simp add: field_def)
      from save_trackings_absent [OF this] st have "w4 = w3" by simp
      with t3 t4 eq show ?thesis by simp
    qed
    have old: "trackings w' = trackings w @
              map (tracking_row (seq w)) (track_items (field body ''trackings''))"
      using f eq by simp
    have rb: "exec Rollback w' = w'" using txn by simp
    have acc: "\<not> (\<exists>x \<in> set (track_items (field body ''trackings'')). \<forall>os ts.
              reject e os ts (InsertTracking (seq w) (prop_or_undefined x ''tracking_number'')
                                (prop_or_undefined x ''carrier'')) \<noteq> None)"
      using g by blast
    have acc': "\<not> (\<forall>os ts. reject e os ts (InsertTracking (seq w) (field kvs ''tracking_number'')
                                         (field kvs ''carrier'')) \<noteq> None)"
      if m: "map_of body ''trackings'' = Some (JArr xs)" and k: "JObj kvs \<in> set xs" for xs kvs
    proof -
      from m have "field body ''trackings'' = JArr xs" by (simp add: field_def)
      moreover from k have "xs \<noteq> []" by auto
      ultimately have "JObj kvs \<in> set (track_items (field body ''trackings''))"
        using k by (simp add: track_items_def length_positive_JArr)
      from g [OF this] show ?thesis by (simp add: prop_or_undefined_def)
    qed
    from ok txn row rows none old rb acc acc' show ?thesis by blast
  qed
qed

theorem create_order_atomic_witness:
  "tx empty_world = None
   \<and> map_of two_trackings ''trackings'' =
       Some (JArr [JObj [(''tracking_number'', JStr ''A1''), (''carrier'', JStr ''UPS'')],
                   JObj [(''tracking_number'', JStr ''B2'')]])
   \<and> seq empty_world \<notin> order_id ` set (trackings empty_world)
   \<and> status (fst (post_orders lenient two_trackings empty_world)) = 200
   \<and> tx (snd (post_orders lenient two_trackings empty_world)) = None
   \<and> orders (snd (post_orders lenient two_trackings empty_world)) =
       [\<lparr>oid = 1, purchase_date = JStr ''2024-01-01'', original_amount = JNum (Fin 100),
         currency = JStr ''HNL'', exchange_rate = JNum (Fin 1),
         freight_cost_hnl = JNum (Fin 0), selling_price_hnl = JNum (Fin 0)\<rparr>]
   \<and> trackings (snd (post_orders lenient two_trackings empty_world)) =
       [\<lparr>order_id = 1, tracking_number = JStr ''A1'', carrier = JStr ''UPS''\<rparr>,
        \<lparr>order_id = 1, tracking_number = JStr ''B2'', carrier = JNull\<rparr>]
   \<and> filter (\<lambda>t. order_id t = 1) (trackings (snd (post_orders lenient two_trackings empty_world))) =
       [\<lparr>order_id = 1, tracking_number = JStr ''A1'', carrier = JStr ''UPS''\<rparr>,
        \<lparr>order_id = 1, tracking_number = JStr ''B2'', carrier = JNull\<rparr>]
   \<and> map_of bad_tracking ''trackings'' =
       Some (JArr [JObj [(''tracking_number'', JStr ''A1''), (''carrier'', JStr ''UPS'')],
                   JObj [(''tracking_number'', JStr ''BAD'')]])
   \<and> (\<forall>os ts. reject picky os ts
         (InsertTracking (seq empty_world) (field [(''tracking_number'', JStr ''BAD'')] ''tracking_number'')
            (field [(''tracking_number'', JStr ''BAD'')] ''carrier'')) \<noteq> None)
   \<and> status (fst (post_orders picky bad_tracking empty_world)) = 500
   \<and> tx (snd (post_orders picky bad_tracking empty_world)) = None
   \<and> orders (snd (post_orders picky bad_tracking empty_world)) = orders empty_world
   \<and> trackings (snd (post_orders picky bad_tracking empty_world)) = trackings empty_world"
proof -
  let ?P = "post_orders lenient two_trackings empty_world"
  let ?Q = "post_orders picky bad_tracking empty_world"
  let ?xs = "[JObj [(''tracking_number'', JStr ''A1''), (''carrier'', JStr ''UPS'')],
              JObj [(''tracking_number'', JStr ''B2'')]]"
  let ?ys = "[JObj [(''tracking_number'', JStr ''A1''), (''carrier'', JStr ''UPS'')],
              JObj [(''tracking_number'', JStr ''BAD'')]]"
  have tx: "tx empty_world = None" by (simp add: empty_world_def)
  have m: "map_of two_trackings ''trackings'' = Some (JArr ?xs)"
    by (simp add: two_trackings_def)
  have m': "map_of bad_tracking ''trackings'' = Some (JArr ?ys)"
    by (simp add: bad_tracking_def)
  have fresh: "seq empty_world \<notin> order_id ` set (trackings empty_world)"
    by (simp add: empty_world_def)
  have refused: "\<forall>os ts. reject picky os ts
         (InsertTracking (seq empty_world) (field [(''tracking_number'', JStr ''BAD'')] ''tracking_number'')
            (field [(''tracking_number'', JStr ''BAD'')] ''carrier'')) \<noteq> None"
    by (simp add: picky_def lenient_def field_def)
  have ok: "status (fst ?P) = 200" by (simp add: two_trackings_run)
  note A = create_order_atomic [OF surjective_pairing tx, of lenient two_trackings]
  note B = create_order_atomic [OF surjective_pairing tx, of picky bad_tracking]
  from A have a0: "tx (snd ?P) = None" by blast
  from A ok have "orders (snd ?P) = orders empty_world @
              [\<lparr>oid = seq empty_world,
                purchase_date = column (map_of two_trackings ''purchase_date''),
                original_amount = column (map_of two_trackings ''original_amount''),
                currency = column (map_of two_trackings ''currency''),
                exchange_rate =
                  fst (post_orders_rate lenient (field two_trackings ''currency'')
                        (field two_trackings ''custom_rate'') empty_world),
                freight_cost_hnl = JNum (Fin 0), selling_price_hnl = JNum (Fin 0)\<rparr>]"
    by blast
  then have a1: "orders (snd ?P) =
       [\<lparr>oid = 1, purchase_date = JStr ''2024-01-01'', original_amount = JNum (Fin 100),
         currency = JStr ''HNL'', exchange_rate = JNum (Fin 1),
         freight_cost_hnl = JNum (Fin 0), selling_price_hnl = JNum (Fin 0)\<rparr>]"
    by (simp add: two_trackings_def field_def column_def post_orders_rate_def empty_world_def)
  from A ok m have "trackings (snd ?P) = trackings empty_world @ map (tracking_of (seq empty_world)) ?xs"
    by blast
  then have a2: "trackings (snd ?P) =
       [\<lparr>order_id = 1, tracking_number = JStr ''A1'', carrier = JStr ''UPS''\<rparr>,
        \<lparr>order_id = 1, tracking_number = JStr ''B2'', carrier = JNull\<rparr>]"
    by (simp add: column_def empty_world_def)
  from A ok m fresh have "filter (\<lambda>t. order_id t = seq empty_world) (trackings (snd ?P))
      = map (tracking_of (seq empty_world)) ?xs"
    by blast
  then have a3: "filter (\<lambda>t. order_id t = 1) (trackings (snd ?P)) =
       [\<lparr>order_id = 1, tracking_number = JStr ''A1'', carrier = JStr ''UPS''\<rparr>,
        \<lparr>order_id = 1, tracking_number = JStr ''B2'', carrier = JNull\<rparr>]"
    by (simp add: column_def empty_world_def)
  have "JObj [(''tracking_number'', JStr ''BAD'')] \<in> set ?ys" by simp
  with B m' refused have "status (fst ?Q) \<noteq> 200" by blast
  with B have b: "status (fst ?Q) = 500" "tx (snd ?Q) = None"
    "orders (snd ?Q) = orders empty_world" "trackings (snd ?Q) = trackings empty_world"
    by blast+
  from tx m fresh ok a0 a1 a2 a3 m' refused b show ?thesis by blast
qed

section \<open>The rate of a new order\<close>

text \<open>
  C7. A request whose currency is not the string \<^verbatim>\<open>USD\<close> (the local currency
  \<^verbatim>\<open>HNL\<close>, or no currency at all) sends no request to the rate service, and
  the order it stores has the exchange rate 1. The handler of the second source
  file stores the currency \<^verbatim>\<open>HNL\<close> and the rate 1 for every request, and has
  no rate service to ask.
\<close>

theorem local_currency_rate_one:
  "(field body ''currency'' \<noteq> JStr ''USD'' \<and> post_orders e body w = (r, w') \<longrightarrow>
      fetches w' = fetches w
      \<and> (status r = 200 \<longrightarrow>
           (\<exists>row. orders w' = orders w @ [row] \<and> exchange_rate row = JNum (Fin 1))))
   \<and> (post_orders_hnl e body w = (r2, w2) \<longrightarrow>
      fetches w2 = fetches w
      \<and> (status r2 = 200 \<longrightarrow>
           (\<exists>row. orders w2 = orders w @ [row] \<and> exchange_rate row = JNum (Fin 1)
                  \<and> currency row = JStr ''HNL'')))"
proof (intro conjI impI)
  assume a: "field body ''currency'' \<noteq> JStr ''USD'' \<and> post_orders e body w = (r, w')"
  then show "fetches w' = fetches w"
    using post_orders_fetches [of e body w r w'] by simp
  assume "status r = 200"
  moreover have "fst (post_orders_rate e (field body ''currency'') (field body ''custom_rate'') w) = JNum (Fin 1)"
    using a by (simp add: post_orders_rate_def)
  ultimately show "\<exists>row. orders w' = orders w @ [row] \<and> exchange_rate row = JNum (Fin 1)"
    using post_orders_success [of e body w r w'] a by (auto simp: new_order_def to_param_def)
next
  let ?b = "(''currency'', JStr ''HNL'') # body"
  assume h: "post_orders_hnl e body w = (r2, w2)"
  obtain r3 w3 where p: "post_orders e ?b w = (r3, w3)"
    by (cases "post_orders e ?b w")
  from post_orders_hnl_as_post_orders [of e body w] h p
  have eq: "w2 = w3" "status r2 = status r3" by simp_all
  have c: "field ?b ''currency'' \<noteq> JStr ''USD''" by (simp add: field_Cons)
  show "fetches w2 = fetches w"
    using post_orders_fetches [OF p] c eq by simp
  assume "status r2 = 200"
  then have "status r3 = 200" using eq by simp
  moreover have "fst (post_orders_rate e (field ?b ''currency'') (field ?b ''custom_rate'') w) = JNum (Fin 1)"
    by (simp add: post_orders_rate_def field_Cons)
  ultimately show "\<exists>row. orders w2 = orders w @ [row] \<and> exchange_rate row = JNum (Fin 1)
                  \<and> currency row = JStr ''HNL''"
    using post_orders_success [OF p] eq by (auto simp: new_order_def to_param_def field_Cons)
qed

theorem local_currency_rate_one_witness:
  "field two_trackings ''currency'' \<noteq> JStr ''USD''
   \<and> status (fst (post_orders lenient two_trackings empty_world)) = 200
   \<and> fetches (snd (post_orders lenient two_trackings empty_world)) = fetches empty_world
   \<and> (\<exists>row. orders (snd (post_orders lenient two_trackings empty_world)) = orders empty_world @ [row]
           \<and> exchange_rate row = JNum (Fin 1))
   \<and> status (fst (post_orders_hnl lenient two_trackings empty_world)) = 200
   \<and> (\<exists>row. orders (snd (post_orders_hnl lenient two_trackings empty_world)) = orders empty_world @ [row]
           \<and> exchange_rate row = JNum (Fin 1) \<and> currency row = JStr ''HNL'')"
proof -
  let ?P = "post_orders lenient two_trackings empty_world"
  let ?H = "post_orders_hnl lenient two_trackings empty_world"
  have c: "field two_trackings ''currency'' \<noteq> JStr ''USD''"
    by (simp add: two_trackings_def field_def)
  have ok: "status (fst ?P) = 200"
    by (simp add: two_trackings_run)
  have ok2: "status (fst ?H) = 200"
    by (simp add: two_trackings_hnl_run)
  have p: "?P = (fst ?P, snd ?P)" and h: "?H = (fst ?H, snd ?H)" by simp_all
  from local_currency_rate_one [of two_trackings lenient empty_world "fst ?P" "snd ?P" "fst ?H" "snd ?H"]
    c ok ok2 p h
  show ?thesis by blast
qed

text \<open>
  C6, as stated, fails: a supplied rate that is no positive number is not
  refused. With a store that accepts the row, the rate \<^verbatim>\<open>"-5"\<close> is stored as
  \<open>-5\<close> and the rate \<^verbatim>\<open>"abc"\<close> as \<^verbatim>\<open>NaN\<close>, and both requests are answered
  with status 200.
\<close>

theorem custom_rate_not_validated:
  "status (fst (post_orders lenient negative_rate empty_world)) = 200
   \<and> map exchange_rate (orders (snd (post_orders lenient negative_rate empty_world))) = [JNum (Fin (- 5))]
   \<and> status (fst (post_orders lenient unreadable_rate empty_world)) = 200
   \<and> map exchange_rate (orders (snd (post_orders lenient unreadable_rate empty_world))) = [JNum NaN]"
  by (simp add: negative_rate_run unreadable_rate_run)

text \<open>
  C6, amended. For a request in \<^verbatim>\<open>USD\<close> with a truthy \<^verbatim>\<open>custom_rate\<close>, the rate
  is \<^verbatim>\<open>parseFloat(custom_rate)\<close>: no request is sent to the rate service (whose
  answer does not matter), a successful request stores exactly that number, and
  the handler itself never refuses the rate: where the store refuses nothing
  and the trackings are well formed, the request succeeds whatever the number.
\<close>

theorem custom_rate_parsed_unchecked:
  assumes "field body ''currency'' = JStr ''USD''" and "truthy (field body ''custom_rate'')"
    and "post_orders e body w = (r, w')"
  shows "fetches w' = fetches w
       \<and> post_orders (e\<lparr>rate_api := a\<rparr>) body w = (r, w')
       \<and> (status r = 200 \<longrightarrow>
            (\<exists>row. orders w' = orders w @ [row]
                  \<and> exchange_rate row = JNum (parseFloat (field body ''custom_rate''))))
       \<and> ((\<forall>os ts s. reject e os ts s = None) \<and> well_formed_trackings (field body ''trackings'') \<longrightarrow>
            status r = 200)"
proof -
  have "fetches w' = fetches w"
    using post_orders_fetches [OF assms(3)] assms(2) by simp
  moreover have "post_orders (e\<lparr>rate_api := a\<rparr>) body w = (r, w')"
    using post_orders_rate_api [where body = body and e = e and a = a and w = w] assms by simp
  moreover have "fst (post_orders_rate e (field body ''currency'') (field body ''custom_rate'') w)
      = JNum (parseFloat (field body ''custom_rate''))"
    using assms(1,2) by (simp add: post_orders_rate_def)
  then have "status r = 200 \<longrightarrow>
       (\<exists>row. orders w' = orders w @ [row]
             \<and> exchange_rate row = JNum (parseFloat (field body ''custom_rate'')))"
    using post_orders_success [OF assms(3)] by (auto simp: new_order_def to_param_def)
  moreover have "(\<forall>os ts s. reject e os ts s = None) \<and> well_formed_trackings (field body ''trackings'') \<longrightarrow>
       status r = 200"
    using post_orders_accepts [of e body w] assms(3) by auto
  ultimately show ?thesis by blast
qed

theorem custom_rate_parsed_unchecked_witness:
  "field spec_example ''currency'' = JStr ''USD''
   \<and> truthy (field spec_example ''custom_rate'')
   \<and> (\<forall>os ts s. reject lenient os ts s = None)
   \<and> well_formed_trackings (field spec_example ''trackings'')
   \<and> parseFloat (field spec_example ''custom_rate'') = Fin 25
   \<and> status (fst (post_orders lenient spec_example empty_world)) = 200
   \<and> fetches (snd (post_orders lenient spec_example empty_world)) = fetches empty_world
   \<and> (\<exists>row. orders (snd (post_orders lenient spec_example empty_world)) = orders empty_world @ [row]
           \<and> exchange_rate row = JNum (Fin 25))"
proof -
  let ?P = "post_orders lenient spec_example empty_world"
  have c: "field spec_example ''currency'' = JStr ''USD''"
    by (simp add: spec_example_def field_def)
  have t: "truthy (field spec_example ''custom_rate'')"
    by (simp add: spec_example_def field_def)
  have l: "\<forall>os ts s. reject lenient os ts s = None" by (simp add: lenient_def)
  have wf: "well_formed_trackings (field spec_example ''trackings'')"
    by (simp add: spec_example_def field_def)
  have pf: "parseFloat (field spec_example ''custom_rate'') = Fin 25"
    by (simp add: spec_example_def field_def number_eval)
  from custom_rate_parsed_unchecked [OF c t surjective_pairing, of lenient empty_world Rejected] l wf
  have "status (fst ?P) = 200" and "fetches (snd ?P) = fetches empty_world"
    and "\<exists>row. orders (snd ?P) = orders empty_world @ [row]
           \<and> exchange_rate row = JNum (parseFloat (field spec_example ''custom_rate''))"
    by blast+
  with c t l wf pf show ?thesis by simp
qed

text \<open>
  C10. In a request in \<^verbatim>\<open>USD\<close> a \<^verbatim>\<open>custom_rate\<close> that is the number 0, the
  empty string or \<^verbatim>\<open>null\<close> is ignored: the rate is the one of
  \<^verbatim>\<open>getDollarRate\<close>, and the answer and the world after the request are those
  of the same request without the field.
\<close>

theorem falsy_custom_rate_ignored:
  assumes "field b1 ''currency'' = JStr ''USD''"
    and "field b1 ''custom_rate'' = JNum (Fin 0) \<or> field b1 ''custom_rate'' = JStr []
         \<or> field b1 ''custom_rate'' = JNull"
    and "field b2 ''custom_rate'' = JUndefined"
    and "\<forall>k. k \<noteq> ''custom_rate'' \<longrightarrow> field b2 k = field b1 k"
  shows "post_orders e b1 w = post_orders e b2 w
       \<and> post_orders_rate e (field b1 ''currency'') (field b1 ''custom_rate'') w = getDollarRate e w"
proof -
  have falsy: "\<not> truthy (field b1 ''custom_rate'')" using assms(2) by auto
  have same: "field b2 ''purchase_date'' = field b1 ''purchase_date''"
    "field b2 ''original_amount'' = field b1 ''original_amount''"
    "field b2 ''currency'' = field b1 ''currency''"
    "field b2 ''trackings'' = field b1 ''trackings''"
    using assms(4) by simp_all
  have "post_orders_try e b1 w = post_orders_try e b2 w"
    unfolding post_orders_try_def Let_def
    by (simp add: same assms(3) post_orders_rate_falsy [OF falsy]
          cong: sum.case_cong prod.case_cong)
  then have "post_orders e b1 w = post_orders e b2 w"
    by (simp add: post_orders_def)
  moreover have "post_orders_rate e (field b1 ''currency'') (field b1 ''custom_rate'') w = getDollarRate e w"
    using assms(1) falsy by (simp add: post_orders_rate_def)
  ultimately show ?thesis ..
qed

theorem falsy_custom_rate_ignored_witness:
  "field zero_rate ''currency'' = JStr ''USD''
   \<and> field zero_rate ''custom_rate'' = JNum (Fin 0)
   \<and> field no_rate ''custom_rate'' = JUndefined
   \<and> post_orders lenient zero_rate empty_world = post_orders lenient no_rate empty_world
   \<and> map exchange_rate (orders (snd (post_orders lenient zero_rate empty_world))) = [JNum (Fin (2660 / 100))]
   \<and> fetches (snd (post_orders lenient zero_rate empty_world)) = 1"
proof -
  have c: "field zero_rate ''currency'' = JStr ''USD''"
    and z: "field zero_rate ''custom_rate'' = JNum (Fin 0)"
    and n: "field no_rate ''custom_rate'' = JUndefined"
    by (simp_all add: zero_rate_def no_rate_def field_def)
  have k: "\<forall>k. k \<noteq> ''custom_rate'' \<longrightarrow> field no_rate k = field zero_rate k"
    by (simp add: zero_rate_def no_rate_def field_def)
  from falsy_custom_rate_ignored [OF c disjI1 [OF z] n k, of lenient empty_world]
  have eq: "post_orders lenient zero_rate empty_world = post_orders lenient no_rate empty_world" ..
  with c z n show ?thesis by (simp add: no_rate_run)
qed




section \<open>The route that answers\<close>

text \<open>
  C4. A request without \<^verbatim>\<open>purchase_date\<close> should be refused with status 400 and
  leave nothing behind. The route that answers \<^verbatim>\<open>POST /api/orders\<close> is the first
  registration, which has no such check: with a store that accepts the row, the
  request is answered with status 200 and an order without a date is stored.
  The check exists in the second registration (lemma
  \<open>second_registration_rejects\<close>), which no request reaches.
\<close>

theorem missing_date_not_rejected:
  "app_post_orders lenient no_date empty_world =
     (\<lparr>status = 200,
       json = JObj [(''success'', JBool True), (''message'', JStr ''Pedido guardado''),
                    (''orderId'', JNum (Fin 1))]\<rparr>,
      \<lparr>orders = [\<lparr>oid = 1, purchase_date = JNull, original_amount = JNum (Fin 100),
                   currency = JNull, exchange_rate = JNum (Fin 1),
                   freight_cost_hnl = JNum (Fin 0), selling_price_hnl = JNum (Fin 0)\<rparr>],
       trackings = [], seq = 2, tx = None, fetches = 0, console = []\<rparr>)"
  by (simp add: second_eval handler_eval no_date_def)

lemma second_registration_rejects:
  "post_orders_second lenient no_date empty_world =
     (\<lparr>status = 400,
       json = JObj [(''error'', JStr ''Faltan datos obligatorios (fecha o monto)'')]\<rparr>,
      empty_world)
   \<and> post_orders_second lenient zero_amount empty_world =
     (\<lparr>status = 400,
       json = JObj [(''error'', JStr ''Faltan datos obligatorios (fecha o monto)'')]\<rparr>,
      empty_world)"
  by (simp add: second_eval handler_eval no_date_def zero_amount_def)

text \<open>
  C5. For the example of the specification (100 US dollars at the supplied rate
  \<^verbatim>\<open>"25.00"\<close>) the rate 25 is stored, but the answer holds the new id only:
  it has neither \<^verbatim>\<open>tasa_usada\<close> nor \<^verbatim>\<open>total_en_lempiras\<close>. The second
  registration computes both (lemma \<open>second_registration_total\<close>), but no
  request reaches it, and it does not read \<^verbatim>\<open>custom_rate\<close>.
\<close>

theorem response_without_total:
  "app_post_orders lenient spec_example empty_world =
     (\<lparr>status = 200,
       json = JObj [(''success'', JBool True), (''message'', JStr ''Pedido guardado''),
                    (''orderId'', JNum (Fin 1))]\<rparr>,
      \<lparr>orders = [\<lparr>oid = 1, purchase_date = JStr ''2024-01-01'', original_amount = JNum (Fin 100),
                   currency = JStr ''USD'', exchange_rate = JNum (Fin 25),
                   freight_cost_hnl = JNum (Fin 0), selling_price_hnl = JNum (Fin 0)\<rparr>],
       trackings = [], seq = 2, tx = None, fetches = 0, console = []\<rparr>)
   \<and> prop_or_undefined (json (fst (app_post_orders lenient spec_example empty_world)))
         ''total_en_lempiras'' = JUndefined
   \<and> prop_or_undefined (json (fst (app_post_orders lenient spec_example empty_world)))
         ''tasa_usada'' = JUndefined"
  by (simp add: second_eval handler_eval number_eval spec_example_def)

lemma second_registration_total:
  "fst (post_orders_second lenient hnl_order empty_world) =
     \<lparr>status = 201,
      json = JObj [(''success'', JBool True), (''message'', JStr ''Pedido guardado exitosamente''),
                   (''order_id'', JNum (Fin 1)), (''tasa_usada'', JNum (Fin 1)),
                   (''total_en_lempiras'', JStr ''100.00'')]\<rparr>
   \<and> fst (post_orders_second lenient spec_example empty_world) =
     \<lparr>status = 201,
      json = JObj [(''success'', JBool True), (''message'', JStr ''Pedido guardado exitosamente''),
                   (''order_id'', JNum (Fin 1)), (''tasa_usada'', JNum (Fin (133 / 5))),
                   (''total_en_lempiras'', JStr ''2660.00'')]\<rparr>"
  by (simp add: second_eval handler_eval number_eval spec_example_def hnl_order_def)

section \<open>Listing the orders\<close>

lemma select_orders_ids:
  "map (oid \<circ> fst) (select_orders os ts) = rev (map oid (sort_key oid os))"
  by (simp add: select_orders_def rev_map)

lemma select_orders_newest_first:
  "sorted (rev (map (oid \<circ> fst) (select_orders os ts)))
   \<and> set (map fst (select_orders os ts)) = set os
   \<and> length (select_orders os ts) = length os"
proof -
  have "map fst (select_orders os ts) = rev (sort_key oid os)"
    by (simp add: select_orders_def comp_def)
  moreover have "length (select_orders os ts) = length os"
    by (simp add: select_orders_def)
  ultimately show ?thesis
    by (simp add: select_orders_ids)
qed

lemma select_orders_trackings:
  assumes "(ord, agg) \<in> set (select_orders os ts)"
  shows "agg = (if filter (\<lambda>t. order_id t = oid ord) ts = []
                then JArr [JObj [(''n_guia'', JNull), (''carrier'', JNull)]]
                else JArr (map (\<lambda>t. JObj [(''n_guia'', tracking_number t), (''carrier'', carrier t)])
                            (filter (\<lambda>t. order_id t = oid ord) ts)))"
proof -
  from assms have agg: "agg = json_agg (left_join ord ts)"
    by (auto simp: select_orders_def)
  show ?thesis
  proof (cases "filter (\<lambda>t. order_id t = oid ord) ts")
    case Nil
    then show ?thesis by (simp add: agg json_agg_def left_join_def)
  next
    case (Cons m ms)
    then show ?thesis by (simp add: agg json_agg_def left_join_def comp_def)
  qed
qed

lemma listing_two_orders:
  "map (oid \<circ> fst) (select_orders
      [new_order 1 JNull JNull JNull JNull, new_order 3 JNull JNull JNull JNull,
       new_order 2 JNull JNull JNull JNull] []) = [3, 2, 1]"
  by (simp add: select_orders_def new_order_def)

text \<open>
  C3. The listing gives every order once, the newest id first (lemma
  \<open>select_orders_newest_first\<close>), with the trackings that reference it (lemma
  \<open>select_orders_trackings\<close>). But an order without trackings does not get an
  empty collection: the row the left join fills with \<^verbatim>\<open>NULL\<close> is aggregated
  like a tracking. After one order without trackings has been created, the
  listing is this:
\<close>

theorem listing_placeholder:
  "get_orders lenient (snd (app_post_orders lenient hnl_order empty_world)) =
     (\<lparr>status = 200,
       json = JArr [JObj [(''id'', JNum (Fin 1)),
                          (''purchase_date'', JStr ''2024-01-01''),
                          (''original_amount'', JNum (Fin 100)),
                          (''currency'', JStr ''HNL''),
                          (''exchange_rate'', JNum (Fin 1)),
                          (''freight_cost_hnl'', JNum (Fin 0)),
                          (''selling_price_hnl'', JNum (Fin 0)),
                          (''trackings'', JArr [JObj [(''n_guia'', JNull), (''carrier'', JNull)]])]]\<rparr>,
      snd (app_post_orders lenient hnl_order empty_world))"
  by (simp add: second_eval handler_eval hnl_order_def get_orders_def select_orders_def
        json_agg_def left_join_def row_json_def)

section \<open>Updating and deleting an order\<close>

lemma put_financials_cases:
  assumes "put_financials e i body w = (r, w')"
  shows "(status r = 500 \<and> w' = w
          \<and> reject e (orders w) (trackings w)
               (UpdateFinancials (field body ''original_amount'')
                  (if truthy (field body ''freight_cost_hnl'') then field body ''freight_cost_hnl'' else JNum (Fin 0))
                  (if truthy (field body ''selling_price_hnl'') then field body ''selling_price_hnl'' else JNum (Fin 0)) i) \<noteq> None)
       \<or> (status r = 200
          \<and> w' = exec (UpdateFinancials (field body ''original_amount'')
                  (if truthy (field body ''freight_cost_hnl'') then field body ''freight_cost_hnl'' else JNum (Fin 0))
                  (if truthy (field body ''selling_price_hnl'') then field body ''selling_price_hnl'' else JNum (Fin 0)) i) w
          \<and> reject e (orders w) (trackings w)
               (UpdateFinancials (field body ''original_amount'')
                  (if truthy (field body ''freight_cost_hnl'') then field body ''freight_cost_hnl'' else JNum (Fin 0))
                  (if truthy (field body ''selling_price_hnl'') then field body ''selling_price_hnl'' else JNum (Fin 0)) i) = None)"
  using assms
  by (auto simp: put_financials_def query_def Let_def split: option.splits)

lemma list_all2_map_self: "(\<And>x. x \<in> set xs \<Longrightarrow> P x (f x)) \<Longrightarrow> list_all2 P xs (map f xs)"
  by (induction xs) simp_all

lemma list_all2_same: "(\<And>x. x \<in> set xs \<Longrightarrow> P x x) \<Longrightarrow> list_all2 P xs xs"
  by (induction xs) simp_all

text \<open>
  C8. A financials update leaves the trackings alone and, row by row, the id,
  the purchase date, the currency and the exchange rate of every order; an order
  with another id is not changed at all. Where it succeeds, the orders with the
  given id get the amount of the request, and a freight cost or selling price
  that the request omits is stored as 0. An id that no order has changes no
  row, and the request succeeds, with or without such an order, whenever the
  store does not refuse the statement.
\<close>

theorem financials_update_frame:
  assumes "put_financials e i body w = (r, w')"
  shows "trackings w' = trackings w
       \<and> list_all2 (\<lambda>old new. oid new = oid old \<and> purchase_date new = purchase_date old
                       \<and> currency new = currency old \<and> exchange_rate new = exchange_rate old
                       \<and> (oid old \<noteq> i \<longrightarrow> new = old))
            (orders w) (orders w')
       \<and> (status r = 200 \<longrightarrow>
            list_all2 (\<lambda>old new. oid old = i \<longrightarrow>
                         original_amount new = to_param (field body ''original_amount'')
                       \<and> (field body ''freight_cost_hnl'' = JUndefined \<longrightarrow> freight_cost_hnl new = JNum (Fin 0))
                       \<and> (truthy (field body ''freight_cost_hnl'') \<longrightarrow>
                            freight_cost_hnl new = field body ''freight_cost_hnl'')
                       \<and> (field body ''selling_price_hnl'' = JUndefined \<longrightarrow> selling_price_hnl new = JNum (Fin 0))
                       \<and> (truthy (field body ''selling_price_hnl'') \<longrightarrow>
                            selling_price_hnl new = field body ''selling_price_hnl''))
              (orders w) (orders w'))
       \<and> (status r \<noteq> 200 \<longrightarrow> status r = 500 \<and> w' = w)
       \<and> (i \<notin> oid ` set (orders w) \<longrightarrow> orders w' = orders w)
       \<and> (reject e (orders w) (trackings w)
             (UpdateFinancials (field body ''original_amount'')
                (if truthy (field body ''freight_cost_hnl'') then field body ''freight_cost_hnl''
                 else JNum (Fin 0))
                (if truthy (field body ''selling_price_hnl'') then field body ''selling_price_hnl''
                 else JNum (Fin 0)) i) = None \<longrightarrow>
            status r = 200)"
proof -
  let ?a = "field body ''original_amount''"
  let ?f = "if truthy (field body ''freight_cost_hnl'') then field body ''freight_cost_hnl'' else JNum (Fin 0)"
  let ?s = "if truthy (field body ''selling_price_hnl'') then field body ''selling_price_hnl'' else JNum (Fin 0)"
  let ?upd = "\<lambda>ord. if oid ord = i then set_financials ?a ?f ?s ord else ord"
  from put_financials_cases [OF assms]
  consider (fail) "status r = 500" "w' = w"
      "reject e (orders w) (trackings w) (UpdateFinancials ?a ?f ?s i) \<noteq> None"
    | (ok) "status r = 200" "w' = exec (UpdateFinancials ?a ?f ?s i) w"
    by blast
  then show ?thesis
  proof cases
    case fail
    then show ?thesis by (simp add: list_all2_same)
  next
    case ok
    have o: "orders w' = map ?upd (orders w)" and t: "trackings w' = trackings w"
      using ok(2) by simp_all
    have frame: "list_all2 (\<lambda>old new. oid new = oid old \<and> purchase_date new = purchase_date old
                       \<and> currency new = currency old \<and> exchange_rate new = exchange_rate old
                       \<and> (oid old \<noteq> i \<longrightarrow> new = old))
            (orders w) (orders w')"
      unfolding o by (rule list_all2_map_self) (simp add: set_financials_def)
    have vals: "list_all2 (\<lambda>old new. oid old = i \<longrightarrow>
                         original_amount new = to_param (field body ''original_amount'')
                       \<and> (field body ''freight_cost_hnl'' = JUndefined \<longrightarrow> freight_cost_hnl new = JNum (Fin 0))
                       \<and> (truthy (field body ''freight_cost_hnl'') \<longrightarrow>
                            freight_cost_hnl new = field body ''freight_cost_hnl'')
                       \<and> (field body ''selling_price_hnl'' = JUndefined \<longrightarrow> selling_price_hnl new = JNum (Fin 0))
                       \<and> (truthy (field body ''selling_price_hnl'') \<longrightarrow>
                            selling_price_hnl new = field body ''selling_price_hnl''))
              (orders w) (orders w')"
      unfolding o by (rule list_all2_map_self) (auto simp: set_financials_def to_param_def)
    have absent: "orders w' = orders w" if "i \<notin> oid ` set (orders w)"
    proof -
      from that have "map ?upd (orders w) = map (\<lambda>ord. ord) (orders w)"
        by (intro map_cong) auto
      then show ?thesis using o by simp
    qed
    from ok(1) t frame vals absent show ?thesis by simp
  qed
qed

theorem financials_update_frame_witness:
  "(\<forall>os ts s. reject lenient os ts s = None)
   \<and> field new_amount ''freight_cost_hnl'' = JUndefined
   \<and> status (fst (put_financials lenient 1 new_amount stocked)) = 200
   \<and> trackings (snd (put_financials lenient 1 new_amount stocked)) = trackings stocked
   \<and> map original_amount (orders (snd (put_financials lenient 1 new_amount stocked)))
        = [JNum (Fin 120), JNum (Fin 50)]
   \<and> map freight_cost_hnl (orders (snd (put_financials lenient 1 new_amount stocked)))
        = [JNum (Fin 0), JNum (Fin 0)]
   \<and> map currency (orders (snd (put_financials lenient 1 new_amount stocked)))
        = map currency (orders stocked)
   \<and> map exchange_rate (orders (snd (put_financials lenient 1 new_amount stocked)))
        = map exchange_rate (orders stocked)
   \<and> 7 \<notin> oid ` set (orders stocked)
   \<and> status (fst (put_financials lenient 7 new_amount stocked)) = 200
   \<and> orders (snd (put_financials lenient 7 new_amount stocked)) = orders stocked"
proof -
  let ?P = "put_financials lenient 1 new_amount stocked"
  let ?Q = "put_financials lenient 7 new_amount stocked"
  have l: "\<forall>os ts s. reject lenient os ts s = None" by (simp add: lenient_def)
  have u: "field new_amount ''freight_cost_hnl'' = JUndefined"
    by (simp add: new_amount_def field_def)
  have a: "7 \<notin> oid ` set (orders stocked)"
    by (simp add: stocked_def new_order_def)
  note T1 = financials_update_frame [OF surjective_pairing, of lenient 1 new_amount stocked]
  note T2 = financials_update_frame [OF surjective_pairing, of lenient 7 new_amount stocked]
  from T1 have ok1: "status (fst ?P) = 200" by (simp add: lenient_def)
  from T1 have tr: "trackings (snd ?P) = trackings stocked" by blast
  from T2 have ok2: "status (fst ?Q) = 200" by (simp add: lenient_def)
  from T2 a have same: "orders (snd ?Q) = orders stocked" by blast
  have vals: "map original_amount (orders (snd ?P)) = [JNum (Fin 120), JNum (Fin 50)]"
    "map freight_cost_hnl (orders (snd ?P)) = [JNum (Fin 0), JNum (Fin 0)]"
    "map currency (orders (snd ?P)) = map currency (orders stocked)"
    "map exchange_rate (orders (snd ?P)) = map exchange_rate (orders stocked)"
    by (simp_all only: put_financials_run) (simp_all add: stocked_def new_order_def to_param_def)
  from l u ok1 tr vals a ok2 same show ?thesis by blast
qed

lemma delete_order_cases:
  assumes "delete_order e i w = (r, w')"
  shows "(status r = 500 \<and> w' = w \<and> reject e (orders w) (trackings w) (DeleteTrackings i) \<noteq> None)
       \<or> (status r = 500 \<and> w' = exec (DeleteTrackings i) w
           \<and> reject e (orders w) (filter (\<lambda>t. order_id t \<noteq> i) (trackings w)) (DeleteOrder i) \<noteq> None)
       \<or> (status r = 200 \<and> w' = exec (DeleteOrder i) (exec (DeleteTrackings i) w))"
  using assms
  by (auto simp: delete_order_def query_def split: option.splits)

text \<open>
  C9. A delete that succeeds has removed the trackings that reference the id and
  then the order: afterwards neither table mentions the id. The order row is
  removed only after the trackings are (a failed request leaves the orders as
  they were), so a store that enforces the foreign key never refuses the
  request, and trackings that all had an order still all have one, whatever
  the outcome. An id that occurs nowhere changes no row, and such a store
  answers it with success like any other.
\<close>

theorem delete_order_cascade:
  assumes "delete_order e i w = (r, w')"
  shows "(status r = 200 \<longrightarrow>
            orders w' = filter (\<lambda>ord. oid ord \<noteq> i) (orders w)
          \<and> trackings w' = filter (\<lambda>t. order_id t \<noteq> i) (trackings w)
          \<and> i \<notin> oid ` set (orders w') \<and> i \<notin> order_id ` set (trackings w'))
       \<and> (status r \<noteq> 200 \<longrightarrow> status r = 500 \<and> orders w' = orders w)
       \<and> (order_id ` set (trackings w) \<subseteq> oid ` set (orders w) \<longrightarrow>
            order_id ` set (trackings w') \<subseteq> oid ` set (orders w'))
       \<and> (i \<notin> oid ` set (orders w) \<and> i \<notin> order_id ` set (trackings w) \<longrightarrow>
            orders w' = orders w \<and> trackings w' = trackings w)
       \<and> (reject e = fk_reject \<or> (\<forall>os ts s. reject e os ts s = None) \<longrightarrow> status r = 200)"
proof -
  have keep_o: "filter (\<lambda>ord. oid ord \<noteq> i) (orders w) = orders w" if "i \<notin> oid ` set (orders w)"
    using that by (auto simp: filter_id_conv)
  have keep_t: "filter (\<lambda>t. order_id t \<noteq> i) (trackings w) = trackings w"
    if "i \<notin> order_id ` set (trackings w)"
    using that by (auto simp: filter_id_conv)
  have fk: "fk_reject os (filter (\<lambda>t. order_id t \<noteq> i) ts) (DeleteOrder i) = None" for os ts
    by auto
  from delete_order_cases [OF assms]
  consider (first) "status r = 500" "w' = w"
      "reject e (orders w) (trackings w) (DeleteTrackings i) \<noteq> None"
    | (second) "status r = 500" "w' = exec (DeleteTrackings i) w"
      "reject e (orders w) (filter (\<lambda>t. order_id t \<noteq> i) (trackings w)) (DeleteOrder i) \<noteq> None"
    | (ok) "status r = 200" "w' = exec (DeleteOrder i) (exec (DeleteTrackings i) w)"
    by blast
  then show ?thesis
  proof cases
    case first
    then show ?thesis by auto
  next
    case second
    have "reject e \<noteq> fk_reject"
    proof
      assume "reject e = fk_reject"
      with second(3) fk [of "orders w" "trackings w"] show False by simp
    qed
    moreover have "\<not> (\<forall>os ts s. reject e os ts s = None)"
    proof
      assume a: "\<forall>os ts s. reject e os ts s = None"
      from a [rule_format, of "orders w" "filter (\<lambda>t. order_id t \<noteq> i) (trackings w)" "DeleteOrder i"]
        second(3) show False by simp
    qed
    moreover have "order_id ` set (trackings w') \<subseteq> order_id ` set (trackings w)"
      using second(2) by auto
    moreover have "orders w' = orders w" using second(2) by simp
    moreover have "trackings w' = trackings w" if "i \<notin> order_id ` set (trackings w)"
      using second(2) keep_t [OF that] by simp
    ultimately show ?thesis using second(1) by auto
  next
    case ok
    then show ?thesis using keep_o keep_t by auto
  qed
qed

theorem delete_order_cascade_witness:
  "reject fk_store = fk_reject
   \<and> order_id ` set (trackings stocked) \<subseteq> oid ` set (orders stocked)
   \<and> status (fst (delete_order fk_store 1 stocked)) = 200
   \<and> map oid (orders (snd (delete_order fk_store 1 stocked))) = [2]
   \<and> map order_id (trackings (snd (delete_order fk_store 1 stocked))) = [2]
   \<and> order_id ` set (trackings (snd (delete_order fk_store 1 stocked)))
        \<subseteq> oid ` set (orders (snd (delete_order fk_store 1 stocked)))
   \<and> 7 \<notin> oid ` set (orders stocked) \<and> 7 \<notin> order_id ` set (trackings stocked)
   \<and> status (fst (delete_order fk_store 7 stocked)) = 200
   \<and> orders (snd (delete_order fk_store 7 stocked)) = orders stocked
   \<and> trackings (snd (delete_order fk_store 7 stocked)) = trackings stocked"
proof -
  let ?P = "delete_order fk_store 1 stocked"
  let ?Q = "delete_order fk_store 7 stocked"
  have f: "reject fk_store = fk_reject" by (simp add: fk_store_def)
  have ri: "order_id ` set (trackings stocked) \<subseteq> oid ` set (orders stocked)"
    by (simp add: stocked_def new_order_def new_tracking_def)
  have a: "7 \<notin> oid ` set (orders stocked)" "7 \<notin> order_id ` set (trackings stocked)"
    by (simp_all add: stocked_def new_order_def new_tracking_def)
  note T1 = delete_order_cascade [OF surjective_pairing, of fk_store 1 stocked]
  note T2 = delete_order_cascade [OF surjective_pairing, of fk_store 7 stocked]
  from T1 f have ok1: "status (fst ?P) = 200" by blast
  from T1 ri have ri': "order_id ` set (trackings (snd ?P)) \<subseteq> oid ` set (orders (snd ?P))" by blast
  from T2 f have ok2: "status (fst ?Q) = 200" by blast
  from T2 a have same: "orders (snd ?Q) = orders stocked" "trackings (snd ?Q) = trackings stocked"
    by blast+
  have vals: "map oid (orders (snd ?P)) = [2]" "map order_id (trackings (snd ?P)) = [2]"
    by (simp_all only: delete_order_run) (simp_all add: new_order_def new_tracking_def)
  from f ri ok1 vals ri' a ok2 same show ?thesis by blast
qed

end
